theory Spec2Isabelle
  imports Main
begin

section \<open>Strings as Python uses them\<close>

text \<open>
  Python strings are modelled as \<^typ>\<open>string\<close>. The helpers below are the ASCII part of
  the string methods the sources call: \<open>str.lower\<close>, \<open>str.capitalize\<close>,
  \<open>str.replace\<close> on single characters and \<open>sep.join\<close>.
\<close>

definition newline :: string where
  "newline = [CHR 0x0A]"

definition lower_char :: "char \<Rightarrow> char" where
  "lower_char c =
     (case map_of (zip ''ABCDEFGHIJKLMNOPQRSTUVWXYZ'' ''abcdefghijklmnopqrstuvwxyz'') c of
        None \<Rightarrow> c | Some d \<Rightarrow> d)"

definition upper_char :: "char \<Rightarrow> char" where
  "upper_char c =
     (case map_of (zip ''abcdefghijklmnopqrstuvwxyz'' ''ABCDEFGHIJKLMNOPQRSTUVWXYZ'') c of
        None \<Rightarrow> c | Some d \<Rightarrow> d)"

definition lower :: "string \<Rightarrow> string" where
  "lower s = map lower_char s"

fun capitalize :: "string \<Rightarrow> string" where
  "capitalize [] = []"
| "capitalize (c # cs) = upper_char c # lower cs"

definition replace_char :: "char \<Rightarrow> char \<Rightarrow> string \<Rightarrow> string" where
  "replace_char old new s = map (\<lambda>c. if c = old then new else c) s"

fun str_join :: "string \<Rightarrow> string list \<Rightarrow> string" where
  "str_join sep [] = []"
| "str_join sep [x] = x"
| "str_join sep (x # y # ys) = x @ sep @ str_join sep (y # ys)"

text \<open>A text between single quotes, as Python prints names inside messages.\<close>

definition quoted :: "string \<Rightarrow> string" where
  "quoted s = [CHR 0x27] @ s @ [CHR 0x27]"

section \<open>The syntax tree of docweaver.py\<close>

text \<open>
  Only what the injector reads or writes is kept of Python's \<open>ast\<close> nodes. An annotation
  expression is represented by the text \<open>ast_to_source\<close> gives for it (the result of
  \<open>ast.unparse\<close>, a library function); \<open>None\<close> is a missing annotation.
\<close>

record arg =
  arg_name :: string
  annotation :: "string option"

record arguments =
  posonlyargs :: "arg list"
  args :: "arg list"
  vararg :: "arg option"
  kwonlyargs :: "arg list"
  kwarg :: "arg option"

datatype expr =
    Constant_str string
  | Other_expr string

text \<open>
  \<open>Compound\<close> stands for every statement that holds statement lists without being a
  definition (\<open>if\<close>, \<open>for\<close>, \<open>while\<close>, \<open>with\<close>, \<open>try\<close>, \<open>match\<close>): a tag and its
  statement-list fields in order. \<open>Simple\<close> is any other statement, by its source text.
\<close>

datatype stmt =
    FunctionDef string arguments "stmt list" "string option"
  | AsyncFunctionDef string arguments "stmt list" "string option"
  | ClassDef string "stmt list"
  | Expr expr
  | Pass
  | Compound string "stmt list list"
  | Simple string

subsection \<open>ast.get_docstring\<close>

text \<open>
  \<open>ast.get_docstring(node)\<close> is not \<open>None\<close> exactly when the body starts with an
  expression statement holding a string constant. Its text is cleaned by the library
  (\<open>inspect.cleandoc\<close>); the injector only tests the result against \<open>None\<close>, so the
  model returns the raw text.
\<close>

fun get_docstring :: "stmt list \<Rightarrow> string option" where
  "get_docstring (Expr (Constant_str s) # rest) = Some s"
| "get_docstring body = None"

subsection \<open>extract_parameters\<close>

definition param_of :: "arg \<Rightarrow> string \<times> string option" where
  "param_of a = (arg_name a, annotation a)"

definition extract_parameters :: "arguments \<Rightarrow> (string \<times> string option) list" where
  "extract_parameters a =
     map param_of (posonlyargs a)
     @ map param_of (args a)
     @ (case vararg a of None \<Rightarrow> [] | Some v \<Rightarrow> [(''*'' @ arg_name v, annotation v)])
     @ map param_of (kwonlyargs a)
     @ (case kwarg a of None \<Rightarrow> [] | Some k \<Rightarrow> [(''**'' @ arg_name k, annotation k)])"

subsection \<open>generate_function_docstring\<close>

definition function_summary :: "string \<Rightarrow> string option \<Rightarrow> string" where
  "function_summary name parent_class =
     (case parent_class of
        Some c \<Rightarrow>
          (if name = ''__init__'' then ''Initialise an instance of `'' @ c @ ''`.''
           else ''Method `'' @ name @ ''` of `'' @ c @ ''`.'')
      | None \<Rightarrow> capitalize (replace_char (CHR ''_'') (CHR '' '') name) @ ''.'')"

definition function_boilerplate :: string where
  "function_boilerplate =
     ''This is an auto-generated docstring skeleton. ''
     @ ''Please update the description and parameter details as appropriate.''"

definition doc_params :: "(string \<times> string option) list \<Rightarrow> string option \<Rightarrow> (string \<times> string option) list" where
  "doc_params params parent_class =
     filter (\<lambda>(n, a). \<not> (parent_class \<noteq> None \<and> (n = ''self'' \<or> n = ''cls''))) params"

text \<open>An annotation text is tested for truth: the empty string counts as missing.\<close>

fun param_line :: "string \<times> string option \<Rightarrow> string" where
  "param_line (name, Some a) =
     (if a \<noteq> [] then ''    '' @ name @ '' ('' @ a @ ''): TODO: describe parameter.''
      else ''    '' @ name @ '': TODO: describe parameter.'')"
| "param_line (name, None) = ''    '' @ name @ '': TODO: describe parameter.''"

definition args_section :: "(string \<times> string option) list \<Rightarrow> string list" where
  "args_section ps = (if ps \<noteq> [] then ['''', ''Args:''] @ map param_line ps else [])"

fun returns_section :: "string option \<Rightarrow> string list" where
  "returns_section (Some r) =
     (if r \<noteq> [] \<and> lower r \<noteq> ''none''
      then ['''', ''Returns:'', ''    '' @ r @ '': TODO: describe return value.'']
      else [])"
| "returns_section None = []"

definition docstring_lines :: "string \<Rightarrow> arguments \<Rightarrow> string option \<Rightarrow> string option \<Rightarrow> string list" where
  "docstring_lines name a returns parent_class =
     [function_summary name parent_class, '''', function_boilerplate]
     @ args_section (doc_params (extract_parameters a) parent_class)
     @ returns_section returns"

definition generate_function_docstring :: "string \<Rightarrow> arguments \<Rightarrow> string option \<Rightarrow> string option \<Rightarrow> string" where
  "generate_function_docstring name a returns parent_class =
     str_join newline (docstring_lines name a returns parent_class)"

subsection \<open>generate_class_docstring\<close>

definition generate_class_docstring :: "string \<Rightarrow> string" where
  "generate_class_docstring name =
     str_join newline
       [name @ '' class.'',
        ''This is an auto-generated docstring skeleton. ''
        @ ''Please update the description, attributes, and examples as needed.'']"

subsection \<open>DocstringInjector\<close>

text \<open>
  The transformer keeps a stack of enclosing class names. \<open>visit_ClassDef\<close> pushes the
  name, visits the children and pops it again, so the stack a visit starts with is the
  stack it ends with: the model passes the stack down as an argument. Each visitor
  first inserts the skeleton at the head of \<open>node.body\<close> and then calls
  \<open>generic_visit\<close>, which visits every child statement in place, the inserted one
  included; an expression statement has no visitor and comes back as it is.
\<close>

definition parent_class_of :: "string list \<Rightarrow> string option" where
  "parent_class_of class_stack = (if class_stack = [] then None else Some (last class_stack))"

definition insert_function_doc :: "string list \<Rightarrow> string \<Rightarrow> arguments \<Rightarrow> stmt list \<Rightarrow> string option \<Rightarrow> stmt list" where
  "insert_function_doc class_stack name a body returns =
     (if get_docstring body = None \<and> body \<noteq> []
      then Expr (Constant_str
             (generate_function_docstring name a returns (parent_class_of class_stack))) # body
      else body)"

definition insert_class_doc :: "string \<Rightarrow> stmt list \<Rightarrow> stmt list" where
  "insert_class_doc name body =
     (if get_docstring body = None \<and> body \<noteq> []
      then Expr (Constant_str (generate_class_docstring name)) # body
      else body)"

function visit :: "string list \<Rightarrow> stmt \<Rightarrow> stmt" where
  "visit cs (ClassDef name body) =
     ClassDef name (map (visit (cs @ [name])) (insert_class_doc name body))"
| "visit cs (FunctionDef name a body returns) =
     FunctionDef name a (map (visit cs) (insert_function_doc cs name a body returns)) returns"
| "visit cs (AsyncFunctionDef name a body returns) =
     AsyncFunctionDef name a (map (visit cs) (insert_function_doc cs name a body returns)) returns"
| "visit cs (Compound tag blocks) = Compound tag (map (map (visit cs)) blocks)"
| "visit cs (Expr e) = Expr e"
| "visit cs Pass = Pass"
| "visit cs (Simple src) = Simple src"
  by pat_completeness auto
termination
proof (relation "measure (\<lambda>(cs, s). size s)")
  fix cs :: "string list" and name body and x :: stmt
  assume "x \<in> set (insert_class_doc name body)"
  then show "((cs @ [name], x), (cs, ClassDef name body)) \<in> measure (\<lambda>(cs, s). size s)"
    by (auto simp: insert_class_doc_def less_Suc_eq_le size_list_estimation' split: if_splits)
next
  fix cs :: "string list" and name a body returns and x :: stmt
  assume "x \<in> set (insert_function_doc cs name a body returns)"
  then have "size x < Suc (size_list size body)"
    by (auto simp: insert_function_doc_def less_Suc_eq_le size_list_estimation' split: if_splits)
  then show "((cs, x), (cs, FunctionDef name a body returns)) \<in> measure (\<lambda>(cs, s). size s)"
    and "((cs, x), (cs, AsyncFunctionDef name a body returns)) \<in> measure (\<lambda>(cs, s). size s)"
    by simp_all
next
  fix cs :: "string list" and tag blocks and b :: "stmt list" and x :: stmt
  assume "b \<in> set blocks" "x \<in> set b"
  then have "size x \<le> size_list size b" "size_list size b \<le> size_list (size_list size) blocks"
    by (simp_all add: size_list_estimation')
  then show "((cs, x), (cs, Compound tag blocks)) \<in> measure (\<lambda>(cs, s). size s)"
    by simp
qed simp

text \<open>\<open>DocstringInjector().visit(tree)\<close> on a module: the stack starts empty.\<close>

definition visit_Module :: "stmt list \<Rightarrow> stmt list" where
  "visit_Module body = map (visit []) body"

section \<open>Values, failures and the outside world of garnish.py\<close>

text \<open>
  A raised exception is a value: its class name and the text \<open>str(e)\<close> gives. The world
  holds what the decorators and context managers act on: the lines given to \<open>print\<close>,
  the records given to the module's logger (level and message) and the current reading
  of \<open>time.perf_counter()\<close>. Clock readings are kept as integers (ticks).
\<close>

record pyexc =
  exc_class :: string
  exc_text :: string

record world =
  stdout :: "string list"
  log_records :: "(string \<times> string) list"
  perf_counter :: int

definition print :: "string \<Rightarrow> world \<Rightarrow> world" where
  "print line w = w\<lparr>stdout := stdout w @ [line]\<rparr>"

definition logger_info :: "string \<Rightarrow> world \<Rightarrow> world" where
  "logger_info msg w = w\<lparr>log_records := log_records w @ [(''INFO'', msg)]\<rparr>"

subsection \<open>Callables, classes and values\<close>

text \<open>
  A function object has an identity (\<open>is\<close> compares identities), a \<open>__name__\<close> and the
  name of the module \<open>inspect.getmodule\<close> finds for it, if any. What \<open>getattr\<close> on a
  class gives is a function object, an object with a \<open>__func__\<close> attribute (a bound
  method, with its own identity and the function underneath) or something else. A class
  is its \<open>__name__\<close> and the attributes \<open>hasattr\<close> finds on it; a value is known by its
  runtime class.
\<close>

record callable =
  c_id :: nat
  c_name :: string
  c_module :: "string option"

datatype attribute =
    Function callable
  | Method nat callable
  | Other_attribute

record pyclass =
  class_name :: string
  class_dict :: "(string \<times> attribute) list"

record pyvalue =
  value_type :: pyclass
  value_repr :: string

definition type_name :: "pyvalue \<Rightarrow> string" where
  "type_name v = class_name (value_type v)"

text \<open>
  The wrapper a decorator of garnish.py returns: a new function object, to which
  \<open>functools.wraps\<close> copies \<open>__name__\<close> and \<open>__module__\<close> of the wrapped function.
\<close>

definition wrapper_of :: "callable \<Rightarrow> nat \<Rightarrow> callable" where
  "wrapper_of func fresh_id = func\<lparr>c_id := fresh_id\<rparr>"

subsection \<open>garnish.py: the scope resolver \<open>_get_scope\<close>\<close>

text \<open>
  \<open>(hasattr(class_method, '__func__') and class_method.__func__ is func) or
  class_method is func\<close>
\<close>

fun same_callable :: "attribute \<Rightarrow> callable \<Rightarrow> bool" where
  "same_callable (Function f) func = (c_id f = c_id func)"
| "same_callable (Method method_id underlying) func =
     (c_id underlying = c_id func \<or> method_id = c_id func)"
| "same_callable Other_attribute func = False"

text \<open>
  Every object has a \<open>__class__\<close>, \<open>args[0]\<close> is read only when \<open>args\<close> is not empty
  and \<open>hasattr\<close> does not raise, so for a callable that has a \<open>__name__\<close> the
  \<open>except (IndexError, AttributeError)\<close> branch has nothing to catch.
\<close>

definition get_scope :: "callable \<Rightarrow> pyvalue list \<Rightarrow> string" where
  "get_scope func args' =
     (let scope = (case c_module func of Some m \<Rightarrow> m | None \<Rightarrow> ''<unknown>'') in
      case args' of
        [] \<Rightarrow> scope @ ''.'' @ c_name func
      | first # rest \<Rightarrow>
          (let class_obj = value_type first in
           case map_of (class_dict class_obj) (c_name func) of
             None \<Rightarrow> scope @ ''.'' @ c_name func
           | Some class_method \<Rightarrow>
               if same_callable class_method func
               then scope @ ''.'' @ class_name class_obj @ ''.'' @ c_name func
               else scope @ ''.'' @ c_name func))"

subsection \<open>The earlier scope resolver, in the file \<open>_garnish.py\<close>\<close>

text \<open>
  The earlier version looks the name up in \<open>dir(args[0].__class__)\<close> and compares
  nothing else; an empty \<open>args\<close> raises IndexError, which it catches. It reads
  \<open>inspect.getmodule(f).__name__\<close> unguarded, which fails when no module is found.
\<close>

definition get_scope_v1 :: "callable \<Rightarrow> pyvalue list \<Rightarrow> pyexc + string" where
  "get_scope_v1 f args' =
     (case c_module f of
        None \<Rightarrow>
          Inl \<lparr>exc_class = ''AttributeError'',
                exc_text = quoted ''NoneType'' @ '' object has no attribute ''
                           @ quoted ''__name__''\<rparr>
      | Some scope \<Rightarrow>
          (case args' of
             [] \<Rightarrow> Inr (scope @ ''.'' @ c_name f)
           | first # rest \<Rightarrow>
               if c_name f \<in> set (map fst (class_dict (value_type first)))
               then Inr (scope @ ''.'' @ class_name (value_type first) @ ''.'' @ c_name f)
               else Inr (scope @ ''.'' @ c_name f)))"

subsection \<open>garnish.py: argtype\<close>

text \<open>
  What the wrapper asks of the wrapped callable: its \<open>__name__\<close>, which a
  \<open>functools.partial\<close> object does not have (AttributeError); the names in
  \<open>inspect.getfullargspec(func).args\<close>, which \<open>inspect\<close> cannot give for a builtin
  such as \<open>max\<close> (TypeError); and the call itself: from the positional arguments, the
  keyword arguments (in order) and the world, an exception or a value, and the world
  after the call.
\<close>

record pyfunction =
  func_name :: "pyexc + string"
  argspec_args :: "pyexc + string list"
  f_call :: "pyvalue list \<Rightarrow> (string \<times> pyvalue) list \<Rightarrow> world \<Rightarrow> (pyexc + pyvalue) \<times> world"

definition arg_types :: "string list \<Rightarrow> pyvalue list \<Rightarrow> string list" where
  "arg_types arg_names args' =
     map (\<lambda>(name, arg). name @ '': '' @ type_name arg) (zip arg_names args')"

definition kwarg_types :: "(string \<times> pyvalue) list \<Rightarrow> string list" where
  "kwarg_types kwargs = map (\<lambda>(key, v). key @ '': '' @ type_name v) kwargs"

text \<open>
  A list of strings inside an f-string is printed by \<open>repr\<close>. For a string, \<open>repr\<close>
  takes double quotes when the text holds an apostrophe and no double quote, single
  quotes otherwise; it puts a backslash before a backslash and before the quote it
  took, writes tab, newline and carriage return as \<open>\t\<close>, \<open>\n\<close>, \<open>\r\<close> and any other
  control character as \<open>\xNN\<close>. Bytes of characters beyond ASCII are left as they are.
\<close>

definition hex_digit :: "nat \<Rightarrow> char" where
  "hex_digit n = ''0123456789abcdef'' ! (n mod 16)"

definition repr_char :: "char \<Rightarrow> char \<Rightarrow> string" where
  "repr_char q c =
     (if c = CHR 0x5C then [CHR 0x5C, CHR 0x5C]
      else if c = q then [CHR 0x5C, q]
      else if c = CHR 0x09 then [CHR 0x5C, CHR ''t'']
      else if c = CHR 0x0A then [CHR 0x5C, CHR ''n'']
      else if c = CHR 0x0D then [CHR 0x5C, CHR ''r'']
      else if (of_char c :: nat) < 32 \<or> (of_char c :: nat) = 127
        then [CHR 0x5C, CHR ''x'', hex_digit (of_char c div 16), hex_digit (of_char c)]
      else [c])"

definition py_repr :: "string \<Rightarrow> string" where
  "py_repr s =
     (let q = (if CHR 0x27 \<in> set s \<and> CHR 0x22 \<notin> set s then CHR 0x22 else CHR 0x27)
      in [q] @ concat (map (repr_char q) s) @ [q])"

definition py_list_repr :: "string list \<Rightarrow> string" where
  "py_list_repr xs = ''['' @ str_join '', '' (map py_repr xs) @ '']''"

definition argtype_output :: "string \<Rightarrow> string list \<Rightarrow> string list \<Rightarrow> string" where
  "argtype_output fname arg_types' kwarg_types' =
     ''Calling '' @ fname @ '' with arguments:'' @ newline @ ''  '' @ py_list_repr arg_types'
     @ (if kwarg_types' \<noteq> []
        then newline @ ''  keyword-arguments: '' @ py_list_repr kwarg_types'
        else [])"

text \<open>
  The wrapper reads the argument specification first and the name when it builds the
  text; a failure of either ends the call before anything is logged, printed or called.
\<close>

definition argtype :: "pyfunction \<Rightarrow> pyvalue list \<Rightarrow> (string \<times> pyvalue) list \<Rightarrow> world \<Rightarrow> (pyexc + pyvalue) \<times> world" where
  "argtype func args' kwargs w =
     (case argspec_args func of
        Inl e \<Rightarrow> (Inl e, w)
      | Inr arg_names \<Rightarrow>
          (case func_name func of
             Inl e \<Rightarrow> (Inl e, w)
           | Inr fname \<Rightarrow>
               (let output = argtype_output fname (arg_types arg_names args') (kwarg_types kwargs);
                    w1 = logger_info output w;
                    w2 = print output w1
                in f_call func args' kwargs w2)))"

subsection \<open>The with statement\<close>

text \<open>
  \<^verbatim>\<open>with cm: block\<close> calls \<open>__enter__\<close>, runs the block, and calls \<open>__exit__\<close> with the
  exception the block raised, if any. An exception raised by \<open>__exit__\<close> itself replaces
  it; otherwise the block's exception goes on to the caller unless \<open>__exit__\<close> returned
  a true value. The block does not name the context manager (\<^verbatim>\<open>with Timer("..."):\<close>),
  so it acts on the world only.
\<close>

definition with_stmt ::
  "('cm \<Rightarrow> world \<Rightarrow> 'cm \<times> world)
   \<Rightarrow> ('cm \<Rightarrow> pyexc option \<Rightarrow> world \<Rightarrow> (pyexc + bool) \<times> 'cm \<times> world)
   \<Rightarrow> 'cm \<Rightarrow> (world \<Rightarrow> pyexc option \<times> world) \<Rightarrow> world
   \<Rightarrow> pyexc option \<times> 'cm \<times> world" where
  "with_stmt enter exit' cm block w =
     (case enter cm w of (cm1, w1) \<Rightarrow>
      case block w1 of (raised, w2) \<Rightarrow>
      case exit' cm1 raised w2 of
        (Inl e, cm2, w3) \<Rightarrow> (Some e, cm2, w3)
      | (Inr suppress, cm2, w3) \<Rightarrow> (if suppress then None else raised, cm2, w3))"

subsection \<open>garnish.py: Timer\<close>

text \<open>
  The report is built by \<open>f'{self.elapsed:.{self.precision}f}'\<close>. The format
  specification \<open>.{precision}f\<close> is accepted for a precision from 0 to \<open>2^31 - 1\<close>;
  for any other the formatting raises ValueError. The digits printed for an accepted
  precision and the message for a refused one are the library's: \<open>digits\<close> and
  \<open>refusal\<close>.
\<close>

definition format_fixed ::
  "(nat \<Rightarrow> int \<Rightarrow> string) \<Rightarrow> (int \<Rightarrow> string) \<Rightarrow> int \<Rightarrow> int \<Rightarrow> pyexc + string" where
  "format_fixed digits refusal precision x =
     (if precision < 0 \<or> 2 ^ 31 \<le> precision
      then Inl \<lparr>exc_class = ''ValueError'', exc_text = refusal precision\<rparr>
      else Inr (digits (nat precision) x))"

record Timer =
  t_description :: string
  t_precision :: int
  start_time :: "int option"
  elapsed :: "int option"

definition Timer_init :: "string \<Rightarrow> int \<Rightarrow> Timer" where
  "Timer_init description precision =
     \<lparr>t_description = description, t_precision = precision,
      start_time = None, elapsed = None\<rparr>"

definition Timer_enter :: "Timer \<Rightarrow> world \<Rightarrow> Timer \<times> world" where
  "Timer_enter self w = (self\<lparr>start_time := Some (perf_counter w)\<rparr>, w)"

definition Timer_exit ::
  "(nat \<Rightarrow> int \<Rightarrow> string) \<Rightarrow> (int \<Rightarrow> string) \<Rightarrow> Timer \<Rightarrow> pyexc option \<Rightarrow> world
   \<Rightarrow> (pyexc + bool) \<times> Timer \<times> world" where
  "Timer_exit digits refusal self exc w =
     (case start_time self of
        None \<Rightarrow>
          (Inl \<lparr>exc_class = ''TypeError'',
                exc_text = ''unsupported operand type(s) for -: '' @ quoted ''float''
                           @ '' and '' @ quoted ''NoneType''\<rparr>, self, w)
      | Some t0 \<Rightarrow>
          (let self' = self\<lparr>elapsed := Some (perf_counter w - t0)\<rparr> in
           case format_fixed digits refusal (t_precision self') (perf_counter w - t0) of
             Inl e \<Rightarrow> (Inl e, self', w)
           | Inr text \<Rightarrow>
               (Inr False, self',
                print (t_description self' @ '' took '' @ text @ '' seconds'') w)))"

subsection \<open>garnish.py: Profiler\<close>

text \<open>
  The profile object is the library's: the model keeps whether it is enabled. What
  \<open>pstats\<close> prints for it, sorted by cumulative time and cut to \<open>limit\<close> lines, depends
  on what ran; it is passed in as \<open>print_stats\<close>, a function of the world at exit.
\<close>

datatype profile = Profile bool

record Profiler =
  p_description :: string
  p_limit :: int
  profiler :: "profile option"

definition Profiler_init :: "string \<Rightarrow> int \<Rightarrow> Profiler" where
  "Profiler_init description limit =
     \<lparr>p_description = description, p_limit = limit, profiler = None\<rparr>"

definition Profiler_enter :: "Profiler \<Rightarrow> world \<Rightarrow> Profiler \<times> world" where
  "Profiler_enter self w = (self\<lparr>profiler := Some (Profile True)\<rparr>, w)"

definition Profiler_exit ::
  "(world \<Rightarrow> int \<Rightarrow> string) \<Rightarrow> Profiler \<Rightarrow> pyexc option \<Rightarrow> world \<Rightarrow> (pyexc + bool) \<times> Profiler \<times> world" where
  "Profiler_exit print_stats self exc w =
     (case profiler self of
        None \<Rightarrow>
          (Inl \<lparr>exc_class = ''AttributeError'',
                exc_text = quoted ''NoneType'' @ '' object has no attribute ''
                           @ quoted ''disable''\<rparr>, self, w)
      | Some p \<Rightarrow>
          (Inr False, self\<lparr>profiler := Some (Profile False)\<rparr>,
           print (print_stats w (p_limit self))
             (print (newline @ ''CPU Profile for '' @ p_description self @ '':'') w)))"

section \<open>banner.py\<close>


subsection \<open>POSIX paths of pathlib\<close>






subsection \<open>Logo\<close>








section \<open>logman.py\<close>

subsection \<open>Loggers and their registry\<close>

text \<open>
  The \<open>logging\<close> module keeps one logger per name for the life of the process;
  \<open>logging.getLogger(name)\<close> returns it, creating it without handlers on first use
  (level \<open>NOTSET\<close>, 0; the root logger, which also answers to the empty name, starts at
  \<open>WARNING\<close>, 30).
\<close>

record formatter =
  fmt_string :: string
  datefmt :: "string option"

datatype handler_kind = RotatingFileHandler | RichHandler

record handler =
  h_kind :: handler_kind
  h_filename :: string
  maxBytes :: nat
  backupCount :: nat
  h_level :: int
  h_formatter :: formatter

record logger =
  l_name :: string
  l_level :: int
  handlers :: "handler list"

type_synonym registry = "string \<Rightarrow> logger option"

definition logger_key :: "string \<Rightarrow> string" where
  "logger_key name = (if name = [] then ''root'' else name)"

definition getLogger :: "registry \<Rightarrow> string \<Rightarrow> logger \<times> registry" where
  "getLogger reg name =
     (case reg (logger_key name) of
        Some l \<Rightarrow> (l, reg)
      | None \<Rightarrow>
          (let l = \<lparr>l_name = logger_key name,
                     l_level = (if logger_key name = ''root'' then 30 else 0),
                     handlers = []\<rparr>
           in (l, reg(logger_key name \<mapsto> l))))"

subsection \<open>get_logger\<close>

text \<open>
  The surroundings of \<open>get_logger\<close>: \<open>Config.LOG_LEVEL\<close> (the configuration is outside
  this repository; the numeric level it stands for), \<open>os.getcwd()\<close>, the text of
  \<open>datetime.now().strftime("%Y%m%d_%H%M%S")\<close>, and the two calls that touch the file
  system and may fail: \<open>os.makedirs(log_folder, exist_ok=True)\<close> and the opening of the
  log file by the \<open>RotatingFileHandler\<close> constructor.
\<close>

record log_env =
  LOG_LEVEL :: int
  getcwd :: string
  now_stamp :: string
  makedirs :: "string \<Rightarrow> pyexc option"
  open_log_file :: "string \<Rightarrow> pyexc option"

text \<open>\<open>os.path.join\<close> on POSIX, for a second part that is not absolute.\<close>

definition os_path_join :: "string \<Rightarrow> string \<Rightarrow> string" where
  "os_path_join a b = (if a = [] \<or> last a = CHR ''/'' then a @ b else a @ ''/'' @ b)"

definition file_formatter :: formatter where
  "file_formatter =
     \<lparr>fmt_string = ''[%(asctime)s.%(msecs)03d] [%(levelname)s] [%(module)s] - %(funcName)s: %(message)s'',
      datefmt = Some ''%Y-%m-%d %H:%M:%S''\<rparr>"

definition new_file_handler :: "log_env \<Rightarrow> string \<Rightarrow> handler" where
  "new_file_handler env log_filename =
     \<lparr>h_kind = RotatingFileHandler, h_filename = log_filename,
      maxBytes = 5 * 1024 * 1024, backupCount = 5,
      h_level = LOG_LEVEL env, h_formatter = file_formatter\<rparr>"

text \<open>
  The result is the exception raised or the logger returned, with the registry as the
  call leaves it: the logger is the object the registry holds under its name, so a
  change to it is a change of that entry. The level is set before the directory is
  made, so a failure leaves the level changed and no handler attached. The
  \<open>RichHandler\<close> the source builds is never attached to anything and leaves no trace.
\<close>

definition get_logger :: "log_env \<Rightarrow> string \<Rightarrow> registry \<Rightarrow> (pyexc + logger) \<times> registry" where
  "get_logger env name reg =
     (case getLogger reg name of (logger0, reg0) \<Rightarrow>
      if handlers logger0 = [] then
        (let logger1 = logger0\<lparr>l_level := LOG_LEVEL env\<rparr>;
             reg1 = reg0(logger_key name \<mapsto> logger1);
             log_folder = os_path_join (getcwd env) ''logs''
         in case makedirs env log_folder of
              Some e \<Rightarrow> (Inl e, reg1)
            | None \<Rightarrow>
                (let log_filename = os_path_join log_folder (now_stamp env @ ''.txt'') in
                 case open_log_file env log_filename of
                   Some e \<Rightarrow> (Inl e, reg1)
                 | None \<Rightarrow>
                     (let logger2 = logger1\<lparr>handlers :=
                            handlers logger1 @ [new_file_handler env log_filename]\<rparr>
                      in (Inr logger2, reg1(logger_key name \<mapsto> logger2)))))
      else (Inr logger0, reg0))"

subsection \<open>collect_run_metadata\<close>

text \<open>
  The surroundings of \<open>collect_run_metadata\<close>: the output of \<open>git rev-parse HEAD\<close> or
  the failure of \<open>subprocess.check_output\<close>; the version of tensorflow or the failure
  of its import; the version of numpy or the failure of its import, which nothing
  guards; host name, interpreter version and the UTC time in ISO format.
\<close>

record meta_env =
  git_rev_parse :: "pyexc + string"
  import_tensorflow :: "pyexc + string"
  import_numpy :: "pyexc + string"
  gethostname :: string
  python_version :: string
  utc_now_isoformat :: string

datatype meta_value = IntValue int | StrValue string

definition py_isspace :: "char \<Rightarrow> bool" where
  "py_isspace c \<longleftrightarrow>
     c \<in> set [CHR 0x20, CHR 0x09, CHR 0x0A, CHR 0x0B, CHR 0x0C, CHR 0x0D,
               CHR 0x1C, CHR 0x1D, CHR 0x1E, CHR 0x1F]"

definition strip :: "string \<Rightarrow> string" where
  "strip s = rev (dropWhile py_isspace (rev (dropWhile py_isspace s)))"

definition collect_run_metadata :: "int \<Rightarrow> meta_env \<Rightarrow> pyexc + (string \<rightharpoonup> meta_value)" where
  "collect_run_metadata seed env =
     (let git_sha = (case git_rev_parse env of Inr out \<Rightarrow> strip out | Inl e \<Rightarrow> ''unknown'');
          tf_ver = (case import_tensorflow env of Inr v \<Rightarrow> v | Inl e \<Rightarrow> ''not-imported'')
      in case import_numpy env of
           Inl e \<Rightarrow> Inl e
         | Inr np_version \<Rightarrow>
             Inr (map_of
               [(''seed'', IntValue seed),
                (''git_sha'', StrValue git_sha),
                (''host'', StrValue (gethostname env)),
                (''python'', StrValue (python_version env)),
                (''tensorflow'', StrValue tf_ver),
                (''numpy'', StrValue np_version),
                (''started_at'', StrValue (utc_now_isoformat env))]))"

section \<open>Predicates and example inputs used by the theorems\<close>

text \<open>
  \<open>all_documented\<close> holds of a statement when every class and function definition in
  it, at any depth, starts with a documentation statement.
\<close>

fun all_documented :: "stmt \<Rightarrow> bool" where
  "all_documented (ClassDef name body) =
     (get_docstring body \<noteq> None \<and> list_all all_documented body)"
| "all_documented (FunctionDef name a body returns) =
     (get_docstring body \<noteq> None \<and> list_all all_documented body)"
| "all_documented (AsyncFunctionDef name a body returns) =
     (get_docstring body \<noteq> None \<and> list_all all_documented body)"
| "all_documented (Compound tag blocks) = list_all (list_all all_documented) blocks"
| "all_documented (Expr e) = True"
| "all_documented Pass = True"
| "all_documented (Simple src) = True"

text \<open>
  The words of the claims about the injector. A parameter has an annotation when its
  annotation text is there and not empty; \<open>annotated_line\<close> is the line the skeleton
  gives an annotated parameter, after its marker (\<open>*\<close>, \<open>**\<close> or none);
  \<open>declared_lines\<close> are these lines for a parameter list in declaration order, and
  \<open>none_words\<close> the sixteen ways to write \<open>none\<close> in upper and lower case.
  \<open>in_body m body\<close> holds when the statement \<open>m\<close> stands in \<open>body\<close> directly or
  inside compound statements of it, without entering another definition.
  \<open>parameters_in_declaration_order\<close> pairs every parameter with its annotation,
  \<open>todo_line\<close> is the line for one of them, and \<open>listed_lines\<close> are the lines of
  those not named \<open>self\<close> or \<open>cls\<close>.
\<close>

definition has_annotation :: "arg \<Rightarrow> bool" where
  "has_annotation x = (case annotation x of Some t \<Rightarrow> t \<noteq> [] | None \<Rightarrow> False)"

definition annotated_line :: "string \<Rightarrow> arg \<Rightarrow> string" where
  "annotated_line marker x =
     ''    '' @ marker @ arg_name x
     @ '' ('' @ (case annotation x of Some t \<Rightarrow> t | None \<Rightarrow> []) @ ''): TODO: describe parameter.''"

fun occurs_in :: "stmt \<Rightarrow> stmt \<Rightarrow> bool" where
  "occurs_in m (Compound tag blocks) = list_ex (list_ex (\<lambda>s. s = m \<or> occurs_in m s)) blocks"
| "occurs_in m s = False"

definition in_body :: "stmt \<Rightarrow> stmt list \<Rightarrow> bool" where
  "in_body m body = list_ex (\<lambda>s. s = m \<or> occurs_in m s) body"

definition declared_lines :: "arguments \<Rightarrow> string list" where
  "declared_lines a =
     map (annotated_line []) (posonlyargs a)
     @ map (annotated_line []) (args a)
     @ (case vararg a of None \<Rightarrow> [] | Some v \<Rightarrow> [annotated_line ''*'' v])
     @ map (annotated_line []) (kwonlyargs a)
     @ (case kwarg a of None \<Rightarrow> [] | Some k \<Rightarrow> [annotated_line ''**'' k])"

definition all_annotated :: "arguments \<Rightarrow> bool" where
  "all_annotated a \<longleftrightarrow>
     list_all has_annotation (posonlyargs a) \<and> list_all has_annotation (args a)
     \<and> (case vararg a of None \<Rightarrow> True | Some v \<Rightarrow> has_annotation v)
     \<and> list_all has_annotation (kwonlyargs a)
     \<and> (case kwarg a of None \<Rightarrow> True | Some k \<Rightarrow> has_annotation k)"

definition none_words :: "string list" where
  "none_words =
     [''none'', ''nonE'', ''noNe'', ''noNE'', ''nOne'', ''nOnE'', ''nONe'', ''nONE'',
      ''None'', ''NonE'', ''NoNe'', ''NoNE'', ''NOne'', ''NOnE'', ''NONe'', ''NONE'']"

definition parameters_in_declaration_order :: "arguments \<Rightarrow> (string \<times> string option) list" where
  "parameters_in_declaration_order a =
     map (\<lambda>x. (arg_name x, annotation x)) (posonlyargs a)
     @ map (\<lambda>x. (arg_name x, annotation x)) (args a)
     @ (case vararg a of None \<Rightarrow> [] | Some v \<Rightarrow> [(''*'' @ arg_name v, annotation v)])
     @ map (\<lambda>x. (arg_name x, annotation x)) (kwonlyargs a)
     @ (case kwarg a of None \<Rightarrow> [] | Some k \<Rightarrow> [(''**'' @ arg_name k, annotation k)])"

definition todo_line :: "string \<times> string option \<Rightarrow> string" where
  "todo_line p =
     ''    '' @ fst p
     @ (case snd p of None \<Rightarrow> [] | Some t \<Rightarrow> if t = [] then [] else '' ('' @ t @ '')'')
     @ '': TODO: describe parameter.''"

definition listed_lines :: "arguments \<Rightarrow> string list" where
  "listed_lines a =
     map todo_line
       (filter (\<lambda>p. fst p \<noteq> ''self'' \<and> fst p \<noteq> ''cls'') (parameters_in_declaration_order a))"

text \<open>Parameter lists and modules of the examples.\<close>

definition no_args :: arguments where
  "no_args = \<lparr>posonlyargs = [], args = [], vararg = None, kwonlyargs = [], kwarg = None\<rparr>"

text \<open>\<^verbatim>\<open>def add(a: int, b: int) -> int\<close>\<close>

definition add_args :: arguments where
  "add_args = \<lparr>posonlyargs = [],
     args = [\<lparr>arg_name = ''a'', annotation = Some ''int''\<rparr>,
             \<lparr>arg_name = ''b'', annotation = Some ''int''\<rparr>],
     vararg = None, kwonlyargs = [], kwarg = None\<rparr>"

text \<open>\<^verbatim>\<open>def register(self, cls)\<close>\<close>

definition register_args :: arguments where
  "register_args = \<lparr>posonlyargs = [],
     args = [\<lparr>arg_name = ''self'', annotation = None\<rparr>,
             \<lparr>arg_name = ''cls'', annotation = None\<rparr>],
     vararg = None, kwonlyargs = [], kwarg = None\<rparr>"

text \<open>\<^verbatim>\<open>def __init__(self, size: int)\<close>\<close>

definition init_args :: arguments where
  "init_args = \<lparr>posonlyargs = [],
     args = [\<lparr>arg_name = ''self'', annotation = None\<rparr>,
             \<lparr>arg_name = ''size'', annotation = Some ''int''\<rparr>],
     vararg = None, kwonlyargs = [], kwarg = None\<rparr>"

definition merge_args :: arguments where
  "merge_args = \<lparr>posonlyargs = [\<lparr>arg_name = ''a'', annotation = Some ''int''\<rparr>],
     args = [\<lparr>arg_name = ''b'', annotation = Some ''str''\<rparr>],
     vararg = Some \<lparr>arg_name = ''rest'', annotation = Some ''int''\<rparr>,
     kwonlyargs = [\<lparr>arg_name = ''key'', annotation = Some ''bool''\<rparr>],
     kwarg = Some \<lparr>arg_name = ''options'', annotation = Some ''str''\<rparr>\<rparr>"

definition widget_args :: arguments where
  "widget_args = \<lparr>posonlyargs = [\<lparr>arg_name = ''self'', annotation = None\<rparr>],
     args = [\<lparr>arg_name = ''item'', annotation = Some ''str''\<rparr>],
     vararg = Some \<lparr>arg_name = ''rest'', annotation = None\<rparr>,
     kwonlyargs = [\<lparr>arg_name = ''cls'', annotation = Some ''type''\<rparr>,
                   \<lparr>arg_name = ''flag'', annotation = Some ''bool''\<rparr>],
     kwarg = Some \<lparr>arg_name = ''options'', annotation = None\<rparr>\<rparr>"

definition documented_module :: "stmt list" where
  "documented_module =
     [ClassDef ''Widget''
        [Expr (Constant_str ''A widget.''),
         FunctionDef ''__init__'' init_args
           [Expr (Constant_str ''Build it.''), Simple ''self.size = size''] None],
      FunctionDef ''stub'' no_args [Expr (Constant_str ''Nothing yet.''), Pass] None]"

text \<open>The example at the end of garnish.py: a method decorated with \<open>@trace\<close>.\<close>

definition method_func :: callable where
  "method_func = \<lparr>c_id = 1, c_name = ''method'', c_module = Some ''__main__''\<rparr>"

definition method_wrapper :: callable where
  "method_wrapper = wrapper_of method_func 2"

definition ExampleClass :: pyclass where
  "ExampleClass = \<lparr>class_name = ''ExampleClass'',
     class_dict = [(''method'', Function method_wrapper)]\<rparr>"

text \<open>\<^verbatim>\<open>def example_function(x, y, multiplier=1.0)\<close>, a free function of the same file.\<close>

definition example_function :: callable where
  "example_function =
     \<lparr>c_id = 3, c_name = ''example_function'', c_module = Some ''__main__''\<rparr>"

definition int_class :: pyclass where
  "int_class = \<lparr>class_name = ''int'', class_dict = []\<rparr>"

definition obj :: pyvalue where
  "obj = \<lparr>value_type = ExampleClass, value_repr = ''obj''\<rparr>"

definition int_value :: "string \<Rightarrow> pyvalue" where
  "int_value digits = \<lparr>value_type = int_class, value_repr = digits\<rparr>"

text \<open>
  The builtin \<open>max\<close>, whose argument specification \<open>inspect\<close> cannot read, and
  \<^verbatim>\<open>def f(a, b, *rest, **options)\<close>, which prints a line and returns 0.
\<close>

definition builtin_max :: pyfunction where
  "builtin_max =
     \<lparr>func_name = Inr ''max'',
      argspec_args = Inl \<lparr>exc_class = ''TypeError'', exc_text = ''unsupported callable''\<rparr>,
      f_call = (\<lambda>args' kwargs w. (Inr (int_value ''2''), w))\<rparr>"

definition report_target :: pyfunction where
  "report_target =
     \<lparr>func_name = Inr ''f'',
      argspec_args = Inr [''a'', ''b''],
      f_call = (\<lambda>args' kwargs w. (Inr (int_value ''0''), print ''inside f'' w))\<rparr>"

definition three_ints :: "pyvalue list" where
  "three_ints = [int_value ''1'', int_value ''2'', int_value ''3'']"

text \<open>A text of printable ASCII characters without apostrophe and backslash.\<close>

definition plain_text :: "string \<Rightarrow> bool" where
  "plain_text s = list_all (\<lambda>c. 32 \<le> (of_char c :: nat) \<and> (of_char c :: nat) < 127
                               \<and> c \<noteq> CHR 0x27 \<and> c \<noteq> CHR 0x5C) s"

text \<open>An empty world; a block that prints, takes five ticks and raises; a formatter.\<close>

definition world0 :: world where
  "world0 = \<lparr>stdout = [], log_records = [], perf_counter = 0\<rparr>"

definition failing_block :: "world \<Rightarrow> pyexc option \<times> world" where
  "failing_block w =
     (Some \<lparr>exc_class = ''ValueError'', exc_text = ''boom''\<rparr>,
      w\<lparr>stdout := stdout w @ [''working''], perf_counter := perf_counter w + 5\<rparr>)"

definition fmt_ticks :: "nat \<Rightarrow> int \<Rightarrow> string" where
  "fmt_ticks precision ticks = (if ticks = 5 then ''5.000'' else ''?'')"

text \<open>The message of the format for a negative precision.\<close>

definition refusal_text :: "int \<Rightarrow> string" where
  "refusal_text precision = ''Format specifier missing precision''"

definition stats_table :: "world \<Rightarrow> int \<Rightarrow> string" where
  "stats_table w limit = ''1 function calls''"





text \<open>
  A file sink is a rotating file handler; \<open>log_file_of\<close> is the name \<open>get_logger\<close>
  gives the log file; then a working directory where directory and file can be made, the
  same five seconds later, and the logger the first request leaves behind.
\<close>

definition is_file_sink :: "handler \<Rightarrow> bool" where
  "is_file_sink h \<longleftrightarrow> h_kind h = RotatingFileHandler"

definition env_ok :: log_env where
  "env_ok = \<lparr>LOG_LEVEL = 20, getcwd = ''/app'', now_stamp = ''20260101_120000'',
     makedirs = (\<lambda>p. None), open_log_file = (\<lambda>p. None)\<rparr>"

definition env_later :: log_env where
  "env_later = env_ok\<lparr>now_stamp := ''20260101_120005''\<rparr>"

definition app_logger :: logger where
  "app_logger = \<lparr>l_name = ''app'', l_level = 20,
     handlers = [new_file_handler env_ok ''/app/logs/20260101_120000.txt'']\<rparr>"

definition log_file_of :: "log_env \<Rightarrow> string" where
  "log_file_of env = os_path_join (os_path_join (getcwd env) ''logs'') (now_stamp env @ ''.txt'')"

text \<open>A machine without git and without tensorflow, with numpy.\<close>

definition env_bare :: meta_env where
  "env_bare =
     \<lparr>git_rev_parse = Inl \<lparr>exc_class = ''FileNotFoundError'',
                             exc_text = ''[Errno 2] No such file or directory: ''
                                        @ quoted ''git''\<rparr>,
      import_tensorflow = Inl \<lparr>exc_class = ''ModuleNotFoundError'',
                                 exc_text = ''No module named '' @ quoted ''tensorflow''\<rparr>,
      import_numpy = Inr ''2.1.0'',
      gethostname = ''trainer-01'',
      python_version = ''3.12.4'',
      utc_now_isoformat = ''2026-01-01T12:00:00+00:00''\<rparr>"

section \<open>The docstring injector: lemmas\<close>

lemma get_docstring_visit_head:
  "get_docstring (visit cs x # rest') = get_docstring (x # rest)"
proof (cases x)
  case (Expr e)
  then show ?thesis by (cases e) simp_all
qed simp_all

lemma get_docstring_map_visit: "get_docstring (map (visit cs) body) = get_docstring body"
  by (cases body) (simp_all add: get_docstring_visit_head)

lemma insert_class_doc_settled:
  "insert_class_doc name (map (visit cs) (insert_class_doc name body)) =
   map (visit cs) (insert_class_doc name body)"
  by (simp add: insert_class_doc_def get_docstring_map_visit)

lemma insert_function_doc_settled:
  "insert_function_doc cs' name a (map (visit cs) (insert_function_doc cs' name a body r)) r =
   map (visit cs) (insert_function_doc cs' name a body r)"
  by (simp add: insert_function_doc_def get_docstring_map_visit)

lemma visit_idempotent: "visit cs (visit cs s) = visit cs s"
proof (induction cs s rule: visit.induct)
  case (1 cs name body)
  then show ?case by (simp add: insert_class_doc_settled)
next
  case (2 cs name a body returns)
  then show ?case by (simp add: insert_function_doc_settled)
next
  case (3 cs name a body returns)
  then show ?case by (simp add: insert_function_doc_settled)
next
  case (4 cs tag blocks)
  then show ?case by simp
qed simp_all

lemma visit_documented: "all_documented s \<Longrightarrow> visit cs s = s"
proof (induction cs s rule: visit.induct)
  case (1 cs name body)
  then show ?case by (simp add: insert_class_doc_def list_all_iff map_idI)
next
  case (2 cs name a body returns)
  then show ?case by (simp add: insert_function_doc_def list_all_iff map_idI)
next
  case (3 cs name a body returns)
  then show ?case by (simp add: insert_function_doc_def list_all_iff map_idI)
next
  case (4 cs tag blocks)
  then show ?case by (simp add: list_all_iff map_idI)
qed simp_all

lemma doc_params_module_level: "doc_params ps None = ps"
  by (simp add: doc_params_def)

lemma doc_params_method:
  "doc_params ps (Some c) = filter (\<lambda>(n, t). n \<noteq> ''self'' \<and> n \<noteq> ''cls'') ps"
  by (simp add: doc_params_def case_prod_unfold)

lemma lower_char_preimage:
  assumes "lower_char c = d"
  shows "c = d \<or> (c, d) \<in> set (zip ''ABCDEFGHIJKLMNOPQRSTUVWXYZ'' ''abcdefghijklmnopqrstuvwxyz'')"
proof (cases "map_of (zip ''ABCDEFGHIJKLMNOPQRSTUVWXYZ'' ''abcdefghijklmnopqrstuvwxyz'') c")
  case None
  then show ?thesis using assms by (simp add: lower_char_def)
next
  case (Some e)
  then have "e = d" using assms by (simp add: lower_char_def)
  with Some show ?thesis by (blast dest: map_of_SomeD)
qed

lemma lower_char_n: "lower_char c = CHR ''n'' \<longleftrightarrow> c = CHR ''n'' \<or> c = CHR ''N''"
proof
  assume "lower_char c = CHR ''n''"
  from lower_char_preimage [OF this] show "c = CHR ''n'' \<or> c = CHR ''N''" by simp
next
  assume "c = CHR ''n'' \<or> c = CHR ''N''"
  then show "lower_char c = CHR ''n''" by (elim disjE) (simp_all add: lower_char_def)
qed

lemma lower_char_o: "lower_char c = CHR ''o'' \<longleftrightarrow> c = CHR ''o'' \<or> c = CHR ''O''"
proof
  assume "lower_char c = CHR ''o''"
  from lower_char_preimage [OF this] show "c = CHR ''o'' \<or> c = CHR ''O''" by simp
next
  assume "c = CHR ''o'' \<or> c = CHR ''O''"
  then show "lower_char c = CHR ''o''" by (elim disjE) (simp_all add: lower_char_def)
qed

lemma lower_char_e: "lower_char c = CHR ''e'' \<longleftrightarrow> c = CHR ''e'' \<or> c = CHR ''E''"
proof
  assume "lower_char c = CHR ''e''"
  from lower_char_preimage [OF this] show "c = CHR ''e'' \<or> c = CHR ''E''" by simp
next
  assume "c = CHR ''e'' \<or> c = CHR ''E''"
  then show "lower_char c = CHR ''e''" by (elim disjE) (simp_all add: lower_char_def)
qed

lemma lower_none_iff: "lower r = ''none'' \<longleftrightarrow> r \<in> set none_words"
proof
  assume "lower r = ''none''"
  then obtain a b c d where r: "r = [a, b, c, d]"
    and "lower_char a = CHR ''n''" "lower_char b = CHR ''o''"
        "lower_char c = CHR ''n''" "lower_char d = CHR ''e''"
    by (auto simp: lower_def map_eq_Cons_conv)
  then have "(a = CHR ''n'' \<or> a = CHR ''N'') \<and> (b = CHR ''o'' \<or> b = CHR ''O'')
      \<and> (c = CHR ''n'' \<or> c = CHR ''N'') \<and> (d = CHR ''e'' \<or> d = CHR ''E'')"
    by (simp only: lower_char_n lower_char_o lower_char_e)
  then show "r \<in> set none_words"
    unfolding r none_words_def by (elim conjE disjE) simp_all
next
  assume "r \<in> set none_words"
  then show "lower r = ''none''"
    unfolding none_words_def
    by (auto simp: lower_def lower_char_n lower_char_o lower_char_e)
qed

lemma occurs_in_visit: "occurs_in m s \<Longrightarrow> occurs_in (visit st m) (visit st s)"
proof (induction m s rule: occurs_in.induct)
  case (1 m tag blocks)
  then show ?case by (fastforce simp: list_ex_iff)
qed simp_all

lemma in_body_visit: "in_body m body \<Longrightarrow> in_body (visit st m) (map (visit st) body)"
  by (auto simp: in_body_def list_ex_iff dest: occurs_in_visit)

lemma param_line_has_annotation:
  "has_annotation x \<Longrightarrow> param_line (marker @ arg_name x, annotation x) = annotated_line marker x"
  by (cases "annotation x") (simp_all add: has_annotation_def annotated_line_def)

lemma map_param_line_annotated:
  "list_all has_annotation xs \<Longrightarrow> map param_line (map param_of xs) = map (annotated_line []) xs"
  using param_line_has_annotation [of _ "[]"]
  by (induction xs) (simp_all add: param_of_def)

lemma args_section_all_annotated:
  assumes "all_annotated a"
  shows "args_section (extract_parameters a) =
     (if declared_lines a = [] then [] else ['''', ''Args:''] @ declared_lines a)"
proof -
  have ann: "list_all has_annotation (posonlyargs a)" "list_all has_annotation (args a)"
    "list_all has_annotation (kwonlyargs a)"
    "case vararg a of None \<Rightarrow> True | Some v \<Rightarrow> has_annotation v"
    "case kwarg a of None \<Rightarrow> True | Some k \<Rightarrow> has_annotation k"
    using assms by (simp_all add: all_annotated_def)
  have v: "map param_line (case vararg a of None \<Rightarrow> []
             | Some v \<Rightarrow> [(''*'' @ arg_name v, annotation v)])
           = (case vararg a of None \<Rightarrow> [] | Some v \<Rightarrow> [annotated_line ''*'' v])"
    using ann(4) param_line_has_annotation [of _ "''*''"]
    by (cases "vararg a") simp_all
  have k: "map param_line (case kwarg a of None \<Rightarrow> []
             | Some k \<Rightarrow> [(''**'' @ arg_name k, annotation k)])
           = (case kwarg a of None \<Rightarrow> [] | Some k \<Rightarrow> [annotated_line ''**'' k])"
    using ann(5) param_line_has_annotation [of _ "''**''"]
    by (cases "kwarg a") simp_all
  have "map param_line (extract_parameters a) = declared_lines a"
    unfolding extract_parameters_def declared_lines_def
    by (simp only: map_append v k map_param_line_annotated [OF ann(1)]
        map_param_line_annotated [OF ann(2)] map_param_line_annotated [OF ann(3)])
  moreover have "extract_parameters a = [] \<longleftrightarrow> map param_line (extract_parameters a) = []"
    by simp
  ultimately show ?thesis by (simp add: args_section_def del: map_is_Nil_conv)
qed

lemma function_docstring_annotated:
  assumes "all_annotated a" and "r \<noteq> []"
  shows "generate_function_docstring name a (Some r) None =
     str_join newline
       ([function_summary name None, '''', function_boilerplate]
        @ (if declared_lines a = [] then [] else ['''', ''Args:''] @ declared_lines a)
        @ (if r \<in> set none_words then []
           else ['''', ''Returns:'', ''    '' @ r @ '': TODO: describe return value.'']))"
proof -
  have "returns_section (Some r) =
        (if r \<in> set none_words then []
         else ['''', ''Returns:'', ''    '' @ r @ '': TODO: describe return value.''])"
    using assms(2) by (simp add: lower_none_iff)
  then show ?thesis
    by (simp only: generate_function_docstring_def docstring_lines_def doc_params_module_level
        args_section_all_annotated [OF assms(1)])
qed

subsection \<open>C1: the skeleton of a module-level function\<close>

text \<open>
  Claim C1. A module-level function definition, synchronous or asynchronous, with a
  non-empty body, no leading documentation statement, every parameter annotated and a
  return annotation \<open>r\<close> gets a new first statement: the skeleton. Its lines are the
  summary, a blank line and the boilerplate; then, when there are parameters, a blank
  line, \<open>Args:\<close> and one line \<open>name (annotation): TODO: describe parameter.\<close> per
  parameter, in declaration order: the position-only parameters, the positional ones,
  \<open>*name\<close>, the keyword-only ones, \<open>**name\<close>; then a blank line, \<open>Returns:\<close> and
  the return line exactly when \<open>r\<close> is none of the sixteen ways to write \<open>none\<close> in
  upper and lower case. The same holds for a definition inside an \<open>if\<close> or \<open>try\<close> at
  module level. Annotation texts are non-empty, as the rendering of an expression always
  is.
\<close>

theorem function_skeleton_inserted:
  assumes "body \<noteq> []" and "get_docstring body = None"
    and "all_annotated a" and "r \<noteq> []"
  shows "let doc = Expr (Constant_str (str_join newline
           ([function_summary name None, '''', function_boilerplate]
            @ (if declared_lines a = [] then [] else ['''', ''Args:''] @ declared_lines a)
            @ (if r \<in> set none_words then []
               else ['''', ''Returns:'', ''    '' @ r @ '': TODO: describe return value.''])))) in
     visit [] (FunctionDef name a body (Some r))
       = FunctionDef name a (doc # map (visit []) body) (Some r)
     \<and> visit [] (AsyncFunctionDef name a body (Some r))
       = AsyncFunctionDef name a (doc # map (visit []) body) (Some r)
     \<and> (in_body (FunctionDef name a body (Some r)) module_body \<longrightarrow>
          in_body (FunctionDef name a (doc # map (visit []) body) (Some r))
            (visit_Module module_body))
     \<and> (in_body (AsyncFunctionDef name a body (Some r)) module_body \<longrightarrow>
          in_body (AsyncFunctionDef name a (doc # map (visit []) body) (Some r))
            (visit_Module module_body))"
proof -
  define doc where "doc = Expr (Constant_str (str_join newline
           ([function_summary name None, '''', function_boilerplate]
            @ (if declared_lines a = [] then [] else ['''', ''Args:''] @ declared_lines a)
            @ (if r \<in> set none_words then []
               else ['''', ''Returns:'', ''    '' @ r @ '': TODO: describe return value.'']))))"
  have ins: "insert_function_doc [] name a body (Some r) = doc # body"
    using assms(1,2)
    by (simp add: insert_function_doc_def parent_class_of_def doc_def
        function_docstring_annotated [OF assms(3,4)])
  have sync: "visit [] (FunctionDef name a body (Some r))
       = FunctionDef name a (doc # map (visit []) body) (Some r)"
    by (simp add: ins) (simp add: doc_def)
  have async: "visit [] (AsyncFunctionDef name a body (Some r))
       = AsyncFunctionDef name a (doc # map (visit []) body) (Some r)"
    by (simp add: ins) (simp add: doc_def)
  have "in_body (FunctionDef name a (doc # map (visit []) body) (Some r))
            (visit_Module module_body)"
    if "in_body (FunctionDef name a body (Some r)) module_body"
    using in_body_visit [OF that, of "[]"] by (simp only: sync visit_Module_def)
  moreover have "in_body (AsyncFunctionDef name a (doc # map (visit []) body) (Some r))
            (visit_Module module_body)"
    if "in_body (AsyncFunctionDef name a body (Some r)) module_body"
    using in_body_visit [OF that, of "[]"] by (simp only: async visit_Module_def)
  ultimately show ?thesis
    using sync async unfolding Let_def doc_def [symmetric] by blast
qed

text \<open>
  Witness for C1: \<^verbatim>\<open>def add(a: int, b: int) -> int: return a + b\<close> lists \<open>a (int)\<close> and
  \<open>b (int)\<close> under \<open>Args:\<close> and \<open>int\<close> under \<open>Returns:\<close>; and
  \<^verbatim>\<open>async def merge(a: int, /, b: str, *rest: int, key: bool, **options: str) -> None\<close>
  inside an \<open>if\<close> lists its five parameters in that order and has no \<open>Returns:\<close>.
\<close>

theorem function_skeleton_inserted_witness:
  "[Simple ''return a + b''] \<noteq> []
   \<and> get_docstring [Simple ''return a + b''] = None
   \<and> all_annotated add_args
   \<and> ''int'' \<noteq> []
   \<and> visit [] (FunctionDef ''add'' add_args [Simple ''return a + b''] (Some ''int'')) =
     FunctionDef ''add'' add_args
       [Expr (Constant_str
          (''Add.'' @ [CHR 0x0A] @ [CHR 0x0A]
           @ ''This is an auto-generated docstring skeleton. ''
           @ ''Please update the description and parameter details as appropriate.''
           @ [CHR 0x0A] @ [CHR 0x0A]
           @ ''Args:'' @ [CHR 0x0A]
           @ ''    a (int): TODO: describe parameter.'' @ [CHR 0x0A]
           @ ''    b (int): TODO: describe parameter.'' @ [CHR 0x0A] @ [CHR 0x0A]
           @ ''Returns:'' @ [CHR 0x0A]
           @ ''    int: TODO: describe return value.'')),
        Simple ''return a + b'']
       (Some ''int'')
   \<and> all_annotated merge_args
   \<and> ''None'' \<in> set none_words
   \<and> in_body (AsyncFunctionDef ''merge'' merge_args [Pass] (Some ''None''))
        [Compound ''if'' [[AsyncFunctionDef ''merge'' merge_args [Pass] (Some ''None'')]]]
   \<and> visit_Module
        [Compound ''if'' [[AsyncFunctionDef ''merge'' merge_args [Pass] (Some ''None'')]]] =
       [Compound ''if'' [[AsyncFunctionDef ''merge'' merge_args
          [Expr (Constant_str
             (''Merge.'' @ [CHR 0x0A] @ [CHR 0x0A]
              @ ''This is an auto-generated docstring skeleton. ''
              @ ''Please update the description and parameter details as appropriate.''
              @ [CHR 0x0A] @ [CHR 0x0A]
              @ ''Args:'' @ [CHR 0x0A]
              @ ''    a (int): TODO: describe parameter.'' @ [CHR 0x0A]
              @ ''    b (str): TODO: describe parameter.'' @ [CHR 0x0A]
              @ ''    *rest (int): TODO: describe parameter.'' @ [CHR 0x0A]
              @ ''    key (bool): TODO: describe parameter.'' @ [CHR 0x0A]
              @ ''    **options (str): TODO: describe parameter.'')),
           Pass]
          (Some ''None'')]]]"
  using function_skeleton_inserted [of "[Simple ''return a + b'']" add_args "''int''" "''add''"
      "[FunctionDef ''add'' add_args [Simple ''return a + b''] (Some ''int'')]"]
    function_skeleton_inserted [of "[Pass]" merge_args "''None''" "''merge''"
      "[Compound ''if'' [[AsyncFunctionDef ''merge'' merge_args [Pass] (Some ''None'')]]]"]
  by (simp add: add_args_def merge_args_def all_annotated_def has_annotation_def in_body_def
      declared_lines_def annotated_line_def none_words_def visit_Module_def
      function_summary_def function_boilerplate_def replace_char_def upper_char_def lower_def
      lower_char_def newline_def Let_def)

subsection \<open>C2: bodies that hold only a placeholder\<close>

text \<open>
  Counterexample to claim C2 as stated: \<^verbatim>\<open>def stub(): pass\<close> and
  \<^verbatim>\<open>class Stub: pass\<close> have the one-statement body \<open>[Pass]\<close>, which is not empty, so
  the injector puts a skeleton in front of the \<open>pass\<close>.
\<close>

theorem pass_only_body_gets_skeleton:
  "visit [] (FunctionDef ''stub'' no_args [Pass] None) =
     FunctionDef ''stub'' no_args
       [Expr (Constant_str (str_join newline [''Stub.'', '''', function_boilerplate])), Pass] None
   \<and> visit [] (FunctionDef ''stub'' no_args [Pass] None)
       \<noteq> FunctionDef ''stub'' no_args [Pass] None
   \<and> visit [] (ClassDef ''Stub'' [Pass]) \<noteq> ClassDef ''Stub'' [Pass]"
  by (simp add: insert_function_doc_def insert_class_doc_def generate_function_docstring_def
      docstring_lines_def parent_class_of_def function_summary_def replace_char_def
      upper_char_def lower_def lower_char_def no_args_def extract_parameters_def
      doc_params_def args_section_def)

text \<open>
  Claim C2, amended. A class or function definition whose body holds no statement at all
  is left as it is; a body that consists of a single \<open>pass\<close> is not empty, and an
  undocumented definition with such a body receives its skeleton as a new first statement,
  before the \<open>pass\<close>.
\<close>

theorem empty_body_untouched:
  "visit cs (FunctionDef name a [] returns) = FunctionDef name a [] returns
   \<and> visit cs (AsyncFunctionDef name a [] returns) = AsyncFunctionDef name a [] returns
   \<and> visit cs (ClassDef name []) = ClassDef name []
   \<and> visit cs (FunctionDef name a [Pass] returns) =
       FunctionDef name a
         [Expr (Constant_str (generate_function_docstring name a returns (parent_class_of cs))),
          Pass] returns
   \<and> visit cs (AsyncFunctionDef name a [Pass] returns) =
       AsyncFunctionDef name a
         [Expr (Constant_str (generate_function_docstring name a returns (parent_class_of cs))),
          Pass] returns
   \<and> visit cs (ClassDef name [Pass]) =
       ClassDef name [Expr (Constant_str (generate_class_docstring name)), Pass]"
  by (simp add: insert_function_doc_def insert_class_doc_def)

text \<open>Witness for the amended C2, on a class named \<open>Stub\<close>.\<close>

theorem empty_body_untouched_witness:
  "visit [] (ClassDef ''Stub'' []) = ClassDef ''Stub'' []
   \<and> visit [] (ClassDef ''Stub'' [Pass]) =
       ClassDef ''Stub'' [Expr (Constant_str (generate_class_docstring ''Stub'')), Pass]"
  using empty_body_untouched [of "[]" "''Stub''" no_args None] by simp

subsection \<open>C3: documented definitions and idempotence\<close>

text \<open>
  Claim C3. A class or function definition whose first statement is a documentation
  statement gets no skeleton: its body is the old body with each statement visited, and
  it still starts with the same documentation statement. So a module in which every
  definition is documented comes back unchanged, and running the injector on its own
  output changes nothing.
\<close>

theorem documented_definitions_untouched:
  "(get_docstring body \<noteq> None \<longrightarrow>
      visit cs (FunctionDef name a body returns) = FunctionDef name a (map (visit cs) body) returns
    \<and> visit cs (AsyncFunctionDef name a body returns) =
        AsyncFunctionDef name a (map (visit cs) body) returns
    \<and> visit cs (ClassDef name body) = ClassDef name (map (visit (cs @ [name])) body)
    \<and> get_docstring (map (visit cs') body) = get_docstring body)
   \<and> (list_all all_documented module_body \<longrightarrow> visit_Module module_body = module_body)
   \<and> visit_Module (visit_Module module_body) = visit_Module module_body"
proof (intro conjI impI)
  assume "list_all all_documented module_body"
  then show "visit_Module module_body = module_body"
    by (simp add: visit_Module_def list_all_iff visit_documented map_idI)
next
  show "visit_Module (visit_Module module_body) = visit_Module module_body"
    by (simp add: visit_Module_def visit_idempotent)
qed (simp_all add: insert_function_doc_def insert_class_doc_def get_docstring_map_visit)

text \<open>
  Witness for C3: a documented function, a module whose definitions are all documented,
  and a second run over the output for \<^verbatim>\<open>def stub(): pass\<close>.
\<close>

theorem documented_definitions_untouched_witness:
  "get_docstring [Expr (Constant_str ''Nothing yet.''), Pass] \<noteq> None
   \<and> visit [] (FunctionDef ''stub'' no_args [Expr (Constant_str ''Nothing yet.''), Pass] None)
       = FunctionDef ''stub'' no_args [Expr (Constant_str ''Nothing yet.''), Pass] None
   \<and> list_all all_documented documented_module
   \<and> visit_Module documented_module = documented_module
   \<and> visit_Module (visit_Module [FunctionDef ''stub'' no_args [Pass] None])
       = visit_Module [FunctionDef ''stub'' no_args [Pass] None]"
  using documented_definitions_untouched
    [of "[Expr (Constant_str ''Nothing yet.''), Pass]" "[]" "''stub''" no_args None "[]"
        documented_module]
    documented_definitions_untouched
    [of "[]" "[]" "''stub''" no_args None "[]"
        "[FunctionDef ''stub'' no_args [Pass] None]"]
  by (simp add: documented_module_def)

subsection \<open>C4: methods and the receiver parameter\<close>

text \<open>
  Counterexample to claim C4 as stated: for the method \<^verbatim>\<open>def register(self, cls)\<close> of
  a class \<open>Registry\<close> the skeleton has no \<open>Args:\<close> section at all. The second
  parameter \<open>cls\<close> is not the receiver, yet it is left out as well: the filter goes by
  name, not by position.
\<close>

theorem second_receiver_name_also_dropped:
  "docstring_lines ''register'' register_args None (Some ''Registry'') =
     [''Method `register` of `Registry`.'', '''', function_boilerplate]
   \<and> ''    cls: TODO: describe parameter.''
       \<notin> set (docstring_lines ''register'' register_args None (Some ''Registry''))"
  by (simp add: docstring_lines_def function_summary_def register_args_def
      extract_parameters_def param_of_def doc_params_def args_section_def function_boilerplate_def)

lemma extract_parameters_declaration_order:
  "extract_parameters a = parameters_in_declaration_order a"
  by (simp add: extract_parameters_def parameters_in_declaration_order_def param_of_def fun_eq_iff
      cong: map_cong)

lemma param_line_todo_line: "param_line p = todo_line p"
  by (cases p rule: param_line.cases) (simp_all add: todo_line_def)

lemma args_section_method:
  "args_section (doc_params (extract_parameters a) (Some c)) =
     (if listed_lines a = [] then [] else ['''', ''Args:''] @ listed_lines a)"
proof -
  have "map param_line (doc_params (extract_parameters a) (Some c)) = listed_lines a"
    by (simp add: doc_params_method extract_parameters_declaration_order listed_lines_def
        param_line_todo_line case_prod_unfold cong: map_cong)
  moreover have "doc_params (extract_parameters a) (Some c) = []
      \<longleftrightarrow> map param_line (doc_params (extract_parameters a) (Some c)) = []"
    by simp
  ultimately show ?thesis by (simp add: args_section_def del: map_is_Nil_conv)
qed

lemma in_body_insert_class_doc: "in_body m members \<Longrightarrow> in_body m (insert_class_doc c members)"
  by (simp add: in_body_def insert_class_doc_def)

text \<open>
  Claim C4, amended. For an undocumented method with a non-empty body inside a class
  \<open>c\<close>, synchronous or asynchronous, directly in the class body or inside an \<open>if\<close>
  or \<open>try\<close> of it, the skeleton leaves out of \<open>Args:\<close> every parameter whose name is
  exactly \<open>self\<close> or \<open>cls\<close>, whatever its position, and lists every other parameter
  in declaration order (position-only, positional, \<open>*name\<close>, keyword-only,
  \<open>**name\<close>), with its annotation when it has one; the summary line of a method named
  \<open>__init__\<close> is \<open>Initialise an instance of `c`.\<close>, that of any other method
  \<open>Method `name` of `c`.\<close>
\<close>

theorem method_skeleton:
  assumes "body \<noteq> []" and "get_docstring body = None"
  shows "let doc = Expr (Constant_str (str_join newline
           ([if name = ''__init__'' then ''Initialise an instance of `'' @ c @ ''`.''
             else ''Method `'' @ name @ ''` of `'' @ c @ ''`.'',
             '''', function_boilerplate]
            @ (if listed_lines a = [] then [] else ['''', ''Args:''] @ listed_lines a)
            @ returns_section returns))) in
     visit (cs @ [c]) (FunctionDef name a body returns)
       = FunctionDef name a (doc # map (visit (cs @ [c])) body) returns
     \<and> visit (cs @ [c]) (AsyncFunctionDef name a body returns)
       = AsyncFunctionDef name a (doc # map (visit (cs @ [c])) body) returns
     \<and> (in_body (FunctionDef name a body returns) members \<longrightarrow>
          (\<exists>members'. visit cs (ClassDef c members) = ClassDef c members'
             \<and> in_body (FunctionDef name a (doc # map (visit (cs @ [c])) body) returns)
                  members'))
     \<and> (in_body (AsyncFunctionDef name a body returns) members \<longrightarrow>
          (\<exists>members'. visit cs (ClassDef c members) = ClassDef c members'
             \<and> in_body (AsyncFunctionDef name a (doc # map (visit (cs @ [c])) body) returns)
                  members'))"
proof -
  define doc where "doc = Expr (Constant_str (str_join newline
           ([if name = ''__init__'' then ''Initialise an instance of `'' @ c @ ''`.''
             else ''Method `'' @ name @ ''` of `'' @ c @ ''`.'',
             '''', function_boilerplate]
            @ (if listed_lines a = [] then [] else ['''', ''Args:''] @ listed_lines a)
            @ returns_section returns)))"
  have "generate_function_docstring name a returns (Some c) = str_join newline
           ([if name = ''__init__'' then ''Initialise an instance of `'' @ c @ ''`.''
             else ''Method `'' @ name @ ''` of `'' @ c @ ''`.'',
             '''', function_boilerplate]
            @ (if listed_lines a = [] then [] else ['''', ''Args:''] @ listed_lines a)
            @ returns_section returns)"
    by (simp only: generate_function_docstring_def docstring_lines_def args_section_method)
       (simp add: function_summary_def)
  then have ins: "insert_function_doc (cs @ [c]) name a body returns = doc # body"
    using assms by (simp add: insert_function_doc_def parent_class_of_def doc_def)
  have sync: "visit (cs @ [c]) (FunctionDef name a body returns)
       = FunctionDef name a (doc # map (visit (cs @ [c])) body) returns"
    by (simp add: ins) (simp add: doc_def)
  have async: "visit (cs @ [c]) (AsyncFunctionDef name a body returns)
       = AsyncFunctionDef name a (doc # map (visit (cs @ [c])) body) returns"
    by (simp add: ins) (simp add: doc_def)
  have cls: "visit cs (ClassDef c members)
       = ClassDef c (map (visit (cs @ [c])) (insert_class_doc c members))"
    by simp
  have "in_body (FunctionDef name a (doc # map (visit (cs @ [c])) body) returns)
          (map (visit (cs @ [c])) (insert_class_doc c members))"
    if "in_body (FunctionDef name a body returns) members"
    using in_body_visit [OF in_body_insert_class_doc [OF that], of "cs @ [c]" c]
    by (simp only: sync)
  moreover have "in_body (AsyncFunctionDef name a (doc # map (visit (cs @ [c])) body) returns)
          (map (visit (cs @ [c])) (insert_class_doc c members))"
    if "in_body (AsyncFunctionDef name a body returns) members"
    using in_body_visit [OF in_body_insert_class_doc [OF that], of "cs @ [c]" c]
    by (simp only: async)
  ultimately show ?thesis
    using sync async cls unfolding Let_def doc_def [symmetric] by blast
qed

text \<open>
  Witness for the amended C4: \<^verbatim>\<open>def __init__(self, size: int)\<close> inside
  \<^verbatim>\<open>class Widget\<close>, and
  \<^verbatim>\<open>async def register(self, /, item: str, *rest, cls: type, flag: bool, **options)\<close>
  inside an \<open>if\<close> of the class body.
\<close>

theorem method_skeleton_witness:
  "[Simple ''self.size = size''] \<noteq> []
   \<and> get_docstring [Simple ''self.size = size''] = None
   \<and> visit [''Widget''] (FunctionDef ''__init__'' init_args [Simple ''self.size = size''] None)
       = FunctionDef ''__init__'' init_args
           [Expr (Constant_str
              (''Initialise an instance of `Widget`.'' @ [CHR 0x0A] @ [CHR 0x0A]
               @ ''This is an auto-generated docstring skeleton. ''
               @ ''Please update the description and parameter details as appropriate.''
               @ [CHR 0x0A] @ [CHR 0x0A]
               @ ''Args:'' @ [CHR 0x0A]
               @ ''    size (int): TODO: describe parameter.'')),
            Simple ''self.size = size'']
           None
   \<and> in_body (AsyncFunctionDef ''register'' widget_args [Pass] None)
        [Compound ''if'' [[AsyncFunctionDef ''register'' widget_args [Pass] None]]]
   \<and> visit [] (ClassDef ''Widget''
        [Expr (Constant_str ''A widget.''),
         Compound ''if'' [[AsyncFunctionDef ''register'' widget_args [Pass] None]]])
       = ClassDef ''Widget''
           [Expr (Constant_str ''A widget.''),
            Compound ''if'' [[AsyncFunctionDef ''register'' widget_args
              [Expr (Constant_str
                 (''Method `register` of `Widget`.'' @ [CHR 0x0A] @ [CHR 0x0A]
                  @ ''This is an auto-generated docstring skeleton. ''
                  @ ''Please update the description and parameter details as appropriate.''
                  @ [CHR 0x0A] @ [CHR 0x0A]
                  @ ''Args:'' @ [CHR 0x0A]
                  @ ''    item (str): TODO: describe parameter.'' @ [CHR 0x0A]
                  @ ''    *rest: TODO: describe parameter.'' @ [CHR 0x0A]
                  @ ''    flag (bool): TODO: describe parameter.'' @ [CHR 0x0A]
                  @ ''    **options: TODO: describe parameter.'')),
               Pass]
              None]]]"
  using method_skeleton [of "[Simple ''self.size = size'']" "''__init__''" "''Widget''" init_args
      None "[]" "[]"]
    method_skeleton [of "[Pass]" "''register''" "''Widget''" widget_args None "[]"
      "[Compound ''if'' [[AsyncFunctionDef ''register'' widget_args [Pass] None]]]"]
  by (simp add: init_args_def widget_args_def listed_lines_def
      parameters_in_declaration_order_def todo_line_def in_body_def insert_class_doc_def Let_def
      function_boilerplate_def newline_def)

section \<open>The instrumentation decorators: theorems\<close>

subsection \<open>C5: the scope of a decorated method\<close>

text \<open>
  Claim C5, on the example at the end of garnish.py: \<open>ExampleClass\<close> has a method
  \<open>method\<close> decorated with \<open>@trace\<close>, and \<open>obj.method(10)\<close> is called. The attribute
  the class holds under the name \<open>method\<close> is the wrapper the decorator returned, a
  function object of its own, so neither identity test of \<open>_get_scope\<close> succeeds and
  the scope is \<open>__main__.method\<close>, not the \<open>__main__.ExampleClass.method\<close> that the
  claim and the docstring of \<open>_get_scope\<close> promise. The earlier resolver of
  \<open>_garnish.py\<close>, which looks only the name up, gives the promised text on the same
  call. Without positional arguments the scope is \<open>module.function\<close>, as claimed.
\<close>

theorem decorated_method_scope_loses_class:
  "get_scope method_func [obj, int_value ''10''] = ''__main__.method''
   \<and> get_scope_v1 method_func [obj, int_value ''10''] = Inr ''__main__.ExampleClass.method''
   \<and> get_scope example_function [] = ''__main__.example_function''"
  by (simp add: get_scope_def get_scope_v1_def method_func_def method_wrapper_def wrapper_of_def
      ExampleClass_def obj_def int_value_def example_function_def)

text \<open>
  The two cases in general: a free function called without positional arguments, and a
  method whose class holds the decorator's wrapper under the method's name.
\<close>

lemma get_scope_free_function:
  "c_module func = Some m \<Longrightarrow> get_scope func [] = m @ ''.'' @ c_name func"
  by (simp add: get_scope_def)

lemma get_scope_decorated_method:
  assumes "fresh \<noteq> c_id func"
    and "map_of (class_dict (value_type inst)) (c_name func) = Some (Function (wrapper_of func fresh))"
    and "c_module func = Some m"
  shows "get_scope func (inst # rest) = m @ ''.'' @ c_name func"
  using assms by (simp add: get_scope_def wrapper_of_def)

subsection \<open>C6: the argument-type reporter\<close>

text \<open>
  Counterexample to claim C6 as stated: the reporter around the builtin \<open>max\<close>, called
  as \<open>max(1, 2)\<close>. \<open>inspect.getfullargspec\<close> has no signature to read and raises
  TypeError inside the wrapper: nothing is printed and \<open>max\<close>, which would have
  returned 2, is never called.
\<close>

theorem builtin_stops_the_reporter:
  "argtype builtin_max [int_value ''1'', int_value ''2''] [] world0
     = (Inl \<lparr>exc_class = ''TypeError'', exc_text = ''unsupported callable''\<rparr>, world0)
   \<and> f_call builtin_max [int_value ''1'', int_value ''2''] [] world0
     = (Inr (int_value ''2''), world0)"
  by (simp add: argtype_def builtin_max_def)

lemma repr_char_plain:
  "32 \<le> (of_char c :: nat) \<Longrightarrow> (of_char c :: nat) < 127 \<Longrightarrow> c \<noteq> CHR 0x27 \<Longrightarrow> c \<noteq> CHR 0x5C
   \<Longrightarrow> repr_char (CHR 0x27) c = [c]"
  by (auto simp: repr_char_def)

lemma concat_repr_char_plain:
  "plain_text s \<Longrightarrow> concat (map (repr_char (CHR 0x27)) s) = s"
  by (induction s) (simp_all add: plain_text_def repr_char_plain)

lemma py_repr_plain: "plain_text s \<Longrightarrow> py_repr s = quoted s"
proof -
  assume p: "plain_text s"
  then have "CHR 0x27 \<notin> set s" by (auto simp: plain_text_def list_all_iff)
  then show ?thesis using p by (simp add: py_repr_def quoted_def concat_repr_char_plain Let_def)
qed

lemma py_list_repr_plain:
  "list_all plain_text xs \<Longrightarrow> py_list_repr xs = ''['' @ str_join '', '' (map quoted xs) @ '']''"
proof -
  assume "list_all plain_text xs"
  then have "map py_repr xs = map quoted xs"
    by (induction xs) (simp_all add: py_repr_plain)
  then show ?thesis by (simp only: py_list_repr_def)
qed

text \<open>
  Claim C6, amended. When \<open>inspect\<close> can read the argument specification of the wrapped
  callable and the callable has a \<open>__name__\<close>, the report pairs the declared parameter
  names with the type names of the positional arguments, position by position, and has
  as many entries as the shorter of the two sequences, so positional arguments beyond the
  declared names are left out. The text given to the logger and to \<open>print\<close> is
  \<open>Calling name with arguments:\<close>, a line break, two blanks and the list of these
  pairs, followed, when there are keyword arguments, by a line break and
  \<open>keyword-arguments:\<close> with the list of their pairs; a list of ordinary texts is
  printed with each text between single quotes. The wrapper then calls the wrapped
  callable once, on the same arguments, and returns what that call returns or raises.
  When the argument specification cannot be read, or the callable has no \<open>__name__\<close>,
  the wrapper raises that failure before anything is logged, printed or called.
\<close>

theorem argtype_reports_and_forwards:
  "(argspec_args func = Inl e \<longrightarrow> argtype func args' kwargs w = (Inl e, w))
   \<and> (argspec_args func = Inr arg_names \<and> func_name func = Inl e \<longrightarrow>
        argtype func args' kwargs w = (Inl e, w))
   \<and> (argspec_args func = Inr arg_names \<and> func_name func = Inr fname \<longrightarrow>
        (let pairs = map (\<lambda>(n, v). n @ '': '' @ type_name v) (zip arg_names args');
             keywords = map (\<lambda>(k, v). k @ '': '' @ type_name v) kwargs;
             report = ''Calling '' @ fname @ '' with arguments:'' @ newline @ ''  ''
                      @ py_list_repr pairs
                      @ (if kwargs = [] then []
                         else newline @ ''  keyword-arguments: '' @ py_list_repr keywords)
         in length pairs = min (length arg_names) (length args')
          \<and> (\<forall>i < length pairs. pairs ! i = arg_names ! i @ '': '' @ type_name (args' ! i))
          \<and> argtype func args' kwargs w
              = f_call func args' kwargs
                  (w\<lparr>log_records := log_records w @ [(''INFO'', report)],
                     stdout := stdout w @ [report]\<rparr>)))
   \<and> (list_all plain_text xs \<longrightarrow>
        py_list_repr xs = ''['' @ str_join '', '' (map quoted xs) @ '']'')"
proof (intro conjI impI)
  assume "argspec_args func = Inl e"
  then show "argtype func args' kwargs w = (Inl e, w)" by (simp add: argtype_def)
next
  assume "argspec_args func = Inr arg_names \<and> func_name func = Inl e"
  then show "argtype func args' kwargs w = (Inl e, w)" by (simp add: argtype_def)
next
  assume "argspec_args func = Inr arg_names \<and> func_name func = Inr fname"
  then show "let pairs = map (\<lambda>(n, v). n @ '': '' @ type_name v) (zip arg_names args');
             keywords = map (\<lambda>(k, v). k @ '': '' @ type_name v) kwargs;
             report = ''Calling '' @ fname @ '' with arguments:'' @ newline @ ''  ''
                      @ py_list_repr pairs
                      @ (if kwargs = [] then []
                         else newline @ ''  keyword-arguments: '' @ py_list_repr keywords)
         in length pairs = min (length arg_names) (length args')
          \<and> (\<forall>i < length pairs. pairs ! i = arg_names ! i @ '': '' @ type_name (args' ! i))
          \<and> argtype func args' kwargs w
              = f_call func args' kwargs
                  (w\<lparr>log_records := log_records w @ [(''INFO'', report)],
                     stdout := stdout w @ [report]\<rparr>)"
    by (simp add: argtype_def Let_def argtype_output_def arg_types_def kwarg_types_def
        print_def logger_info_def)
next
  assume "list_all plain_text xs"
  then show "py_list_repr xs = ''['' @ str_join '', '' (map quoted xs) @ '']''"
    by (rule py_list_repr_plain)
qed

text \<open>
  Witness for the amended C6: \<^verbatim>\<open>def f(a, b, *rest, **options)\<close> called as
  \<open>f(1, 2, 3, c=3)\<close>: the report lists \<open>a: int\<close> and \<open>b: int\<close> only and is printed
  before \<open>f\<close> prints its own line; the builtin \<open>max\<close>; and the list of a text with an
  apostrophe, which \<open>repr\<close> puts between double quotes.
\<close>

theorem argtype_reports_and_forwards_witness:
  "argspec_args report_target = Inr [''a'', ''b'']
   \<and> func_name report_target = Inr ''f''
   \<and> argtype report_target three_ints [(''c'', int_value ''3'')] world0
       = (Inr (int_value ''0''),
          \<lparr>stdout = [''Calling f with arguments:'' @ newline
                       @ ''  ['' @ quoted ''a: int'' @ '', '' @ quoted ''b: int'' @ '']'' @ newline
                       @ ''  keyword-arguments: ['' @ quoted ''c: int'' @ '']'',
                      ''inside f''],
            log_records = [(''INFO'', ''Calling f with arguments:'' @ newline
                       @ ''  ['' @ quoted ''a: int'' @ '', '' @ quoted ''b: int'' @ '']'' @ newline
                       @ ''  keyword-arguments: ['' @ quoted ''c: int'' @ '']'')],
            perf_counter = 0\<rparr>)
   \<and> argspec_args builtin_max
       = Inl \<lparr>exc_class = ''TypeError'', exc_text = ''unsupported callable''\<rparr>
   \<and> argtype builtin_max three_ints [] world0
       = (Inl \<lparr>exc_class = ''TypeError'', exc_text = ''unsupported callable''\<rparr>, world0)
   \<and> list_all plain_text [''a: int'', ''b: int'']
   \<and> py_list_repr [''a: int'', ''b: int'']
       = ''['' @ quoted ''a: int'' @ '', '' @ quoted ''b: int'' @ '']''
   \<and> py_list_repr [''it'' @ [CHR 0x27] @ ''s: int'']
       = ''['' @ [CHR 0x22] @ ''it'' @ [CHR 0x27] @ ''s: int'' @ [CHR 0x22] @ '']''"
  using argtype_reports_and_forwards
    [of report_target "\<lparr>exc_class = ''TypeError'', exc_text = ''unsupported callable''\<rparr>"
        three_ints "[(''c'', int_value ''3'')]" world0
        "[''a'', ''b'']" "''f''" "[''a: int'', ''b: int'']"]
    argtype_reports_and_forwards
    [of builtin_max "\<lparr>exc_class = ''TypeError'', exc_text = ''unsupported callable''\<rparr>"
        three_ints "[]" world0]
  by (simp add: report_target_def builtin_max_def three_ints_def int_value_def int_class_def
      world0_def type_name_def print_def newline_def quoted_def plain_text_def Let_def
      py_list_repr_def py_repr_def repr_char_def)

subsection \<open>C7: Timer and Profiler scopes\<close>

lemma format_fixed_accepts:
  "0 \<le> precision \<Longrightarrow> precision < 2 ^ 31 \<Longrightarrow>
   format_fixed digits refusal precision x = Inr (digits (nat precision) x)"
  by (simp add: format_fixed_def)

lemma format_fixed_rejects:
  "precision < 0 \<or> 2 ^ 31 \<le> precision \<Longrightarrow>
   \<exists>e. format_fixed digits refusal precision x = Inl e \<and> exc_class e = ''ValueError''"
  by (auto simp: format_fixed_def)

lemma with_Timer:
  assumes "0 \<le> precision" and "precision < 2 ^ 31"
  shows "with_stmt Timer_enter (Timer_exit digits refusal) (Timer_init description precision) block w =
     (fst (block w),
      \<lparr>t_description = description, t_precision = precision,
        start_time = Some (perf_counter w),
        elapsed = Some (perf_counter (snd (block w)) - perf_counter w)\<rparr>,
      print (description @ '' took ''
             @ digits (nat precision) (perf_counter (snd (block w)) - perf_counter w)
             @ '' seconds'')
        (snd (block w)))"
  by (simp add: with_stmt_def Timer_enter_def Timer_exit_def Timer_init_def Let_def
      format_fixed_accepts [OF assms] split: prod.splits)

lemma with_Timer_rejected:
  assumes "precision < 0 \<or> 2 ^ 31 \<le> precision"
  shows "\<exists>e. exc_class e = ''ValueError''
     \<and> with_stmt Timer_enter (Timer_exit digits refusal) (Timer_init description precision) block w =
       (Some e,
        \<lparr>t_description = description, t_precision = precision,
          start_time = Some (perf_counter w),
          elapsed = Some (perf_counter (snd (block w)) - perf_counter w)\<rparr>,
        snd (block w))"
proof -
  obtain e where "format_fixed digits refusal precision
      (perf_counter (snd (block w)) - perf_counter w) = Inl e" "exc_class e = ''ValueError''"
    using format_fixed_rejects [OF assms] by blast
  then show ?thesis
    by (auto simp: with_stmt_def Timer_enter_def Timer_exit_def Timer_init_def Let_def
        split: prod.splits)
qed

lemma with_Profiler:
  "with_stmt Profiler_enter (Profiler_exit print_stats) (Profiler_init description limit) block w =
     (fst (block w),
      \<lparr>p_description = description, p_limit = limit, profiler = Some (Profile False)\<rparr>,
      print (print_stats (snd (block w)) limit)
        (print (newline @ ''CPU Profile for '' @ description @ '':'') (snd (block w))))"
  by (simp add: with_stmt_def Profiler_enter_def Profiler_exit_def Profiler_init_def
      split: prod.splits)

text \<open>
  Counterexample to claim C7 as stated: \<^verbatim>\<open>with Timer("Sleep operation", precision=-1)\<close>
  around a block that prints a line and raises \<open>ValueError('boom')\<close>. The format
  \<open>.-1f\<close> is refused inside \<open>__exit__\<close>: no report is printed, and the caller sees the
  format's ValueError in place of the block's.
\<close>

theorem negative_precision_breaks_timer:
  "with_stmt Timer_enter (Timer_exit fmt_ticks refusal_text) (Timer_init ''Sleep operation'' (- 1))
       failing_block world0
     = (Some \<lparr>exc_class = ''ValueError'', exc_text = ''Format specifier missing precision''\<rparr>,
        \<lparr>t_description = ''Sleep operation'', t_precision = - 1,
          start_time = Some 0, elapsed = Some 5\<rparr>,
        \<lparr>stdout = [''working''], log_records = [], perf_counter = 5\<rparr>)
   \<and> fst (failing_block world0) = Some \<lparr>exc_class = ''ValueError'', exc_text = ''boom''\<rparr>"
  by (simp add: with_stmt_def Timer_enter_def Timer_exit_def Timer_init_def Let_def
      format_fixed_def failing_block_def world0_def refusal_text_def)

text \<open>
  Claim C7, amended. For every block, a \<open>with Timer(...)\<close> statement whose precision is
  at least 0 and below \<open>2^31\<close>, and every \<open>with Profiler(...)\<close> statement, ends the way
  the block ended: with the exception the block raised, unchanged, or normally. On the way
  out the report is printed exactly once, after everything the block printed: one line for
  the Timer, the header and the statistics table for the Profiler. With a precision
  outside that range the Timer's exit raises ValueError from its format, prints no report
  and replaces whatever the block raised.
\<close>

theorem scope_reports_once_and_propagates:
  "(0 \<le> precision \<and> precision < 2 ^ 31 \<longrightarrow>
      fst (with_stmt Timer_enter (Timer_exit digits refusal) (Timer_init description precision) block w)
        = fst (block w)
      \<and> stdout (snd (snd
           (with_stmt Timer_enter (Timer_exit digits refusal) (Timer_init description precision) block w)))
        = stdout (snd (block w))
          @ [description @ '' took ''
             @ digits (nat precision) (perf_counter (snd (block w)) - perf_counter w)
             @ '' seconds''])
   \<and> (precision < 0 \<or> 2 ^ 31 \<le> precision \<longrightarrow>
      (\<exists>e. exc_class e = ''ValueError''
         \<and> fst (with_stmt Timer_enter (Timer_exit digits refusal) (Timer_init description precision)
                  block w) = Some e)
      \<and> stdout (snd (snd
           (with_stmt Timer_enter (Timer_exit digits refusal) (Timer_init description precision) block w)))
        = stdout (snd (block w)))
   \<and> fst (with_stmt Profiler_enter (Profiler_exit print_stats)
          (Profiler_init description limit) block w)
     = fst (block w)
   \<and> stdout (snd (snd
        (with_stmt Profiler_enter (Profiler_exit print_stats)
          (Profiler_init description limit) block w)))
     = stdout (snd (block w))
       @ [newline @ ''CPU Profile for '' @ description @ '':'',
          print_stats (snd (block w)) limit]"
proof (intro conjI impI)
  assume ok: "0 \<le> precision \<and> precision < 2 ^ 31"
  then show "fst (with_stmt Timer_enter (Timer_exit digits refusal) (Timer_init description precision)
      block w) = fst (block w)"
    by (simp add: with_Timer)
  from ok show "stdout (snd (snd
           (with_stmt Timer_enter (Timer_exit digits refusal) (Timer_init description precision) block w)))
        = stdout (snd (block w))
          @ [description @ '' took ''
             @ digits (nat precision) (perf_counter (snd (block w)) - perf_counter w)
             @ '' seconds'']"
    by (simp add: with_Timer print_def)
next
  assume bad: "precision < 0 \<or> 2 ^ 31 \<le> precision"
  from with_Timer_rejected [OF bad, of digits refusal description block w]
  show "\<exists>e. exc_class e = ''ValueError''
         \<and> fst (with_stmt Timer_enter (Timer_exit digits refusal) (Timer_init description precision)
                  block w) = Some e"
    by auto
  from with_Timer_rejected [OF bad, of digits refusal description block w]
  show "stdout (snd (snd
           (with_stmt Timer_enter (Timer_exit digits refusal) (Timer_init description precision) block w)))
        = stdout (snd (block w))"
    by auto
next
  show "fst (with_stmt Profiler_enter (Profiler_exit print_stats)
          (Profiler_init description limit) block w)
     = fst (block w)"
    by (simp add: with_Profiler)
  show "stdout (snd (snd
        (with_stmt Profiler_enter (Profiler_exit print_stats)
          (Profiler_init description limit) block w)))
     = stdout (snd (block w))
       @ [newline @ ''CPU Profile for '' @ description @ '':'',
          print_stats (snd (block w)) limit]"
    by (simp add: with_Profiler print_def)
qed

text \<open>
  Witness for the amended C7: a block that prints a line, takes five ticks and raises
  ValueError, under a Timer of precision 3, under a Timer of precision \<open>-5\<close> and under a
  Profiler.
\<close>

theorem scope_reports_once_and_propagates_witness:
  "(0::int) \<le> 3 \<and> (3::int) < 2 ^ 31
   \<and> fst (with_stmt Timer_enter (Timer_exit fmt_ticks refusal_text) (Timer_init ''Sleep operation'' 3)
          failing_block world0)
     = Some \<lparr>exc_class = ''ValueError'', exc_text = ''boom''\<rparr>
   \<and> stdout (snd (snd
        (with_stmt Timer_enter (Timer_exit fmt_ticks refusal_text) (Timer_init ''Sleep operation'' 3)
          failing_block world0)))
     = [''working'', ''Sleep operation took 5.000 seconds'']
   \<and> (- 5::int) < 0
   \<and> fst (with_stmt Timer_enter (Timer_exit fmt_ticks refusal_text) (Timer_init ''Sleep operation'' (- 5))
          failing_block world0)
     = Some \<lparr>exc_class = ''ValueError'', exc_text = ''Format specifier missing precision''\<rparr>
   \<and> stdout (snd (snd
        (with_stmt Timer_enter (Timer_exit fmt_ticks refusal_text) (Timer_init ''Sleep operation'' (- 5))
          failing_block world0)))
     = [''working'']
   \<and> fst (with_stmt Profiler_enter (Profiler_exit stats_table)
          (Profiler_init ''Sleep operation'' 20) failing_block world0)
     = Some \<lparr>exc_class = ''ValueError'', exc_text = ''boom''\<rparr>
   \<and> stdout (snd (snd
        (with_stmt Profiler_enter (Profiler_exit stats_table)
          (Profiler_init ''Sleep operation'' 20) failing_block world0)))
     = [''working'', newline @ ''CPU Profile for Sleep operation:'', ''1 function calls'']"
  using scope_reports_once_and_propagates
    [of 3 fmt_ticks refusal_text "''Sleep operation''" failing_block world0 stats_table 20]
    scope_reports_once_and_propagates
    [of "- 5" fmt_ticks refusal_text "''Sleep operation''" failing_block world0 stats_table 20]
  by (simp add: failing_block_def world0_def fmt_ticks_def stats_table_def
      with_stmt_def Timer_enter_def Timer_exit_def Timer_init_def Let_def format_fixed_def
      refusal_text_def)

section \<open>The banner: theorems\<close>

subsection \<open>C8: what the banner catches\<close>






section \<open>Logging and run metadata: theorems\<close>

subsection \<open>C9: one file sink per logger\<close>

lemma get_logger_already_configured:
  assumes "reg (logger_key name) = Some l" and "handlers l \<noteq> []"
  shows "get_logger env name reg = (Inr l, reg)"
  using assms by (simp add: get_logger_def getLogger_def)

lemma get_logger_first_request:
  assumes "reg (logger_key name) = None \<or> (\<exists>l. reg (logger_key name) = Some l \<and> handlers l = [])"
    and "makedirs env (os_path_join (getcwd env) ''logs'') = None"
    and "open_log_file env (log_file_of env) = None"
  shows "\<exists>l reg'. get_logger env name reg = (Inr l, reg')
       \<and> reg' (logger_key name) = Some l
       \<and> handlers l = [new_file_handler env (log_file_of env)]"
proof -
  from assms(1) show ?thesis
  proof
    assume "reg (logger_key name) = None"
    then show ?thesis
      using assms(2,3) by (simp add: get_logger_def getLogger_def Let_def log_file_of_def)
  next
    assume "\<exists>l. reg (logger_key name) = Some l \<and> handlers l = []"
    then obtain l0 where "reg (logger_key name) = Some l0" "handlers l0 = []" by blast
    then show ?thesis
      using assms(2,3) by (simp add: get_logger_def getLogger_def Let_def log_file_of_def)
  qed
qed

text \<open>
  Claim C9. A logger that already has sinks when it is requested is returned as it is,
  and the registry is left as it is. So when a logger without sinks is requested, and the
  log directory and file can be made, the request returns it with exactly one sink, a
  rotating file handler, and a second request by the same name, whenever it comes,
  returns the same logger with that one file sink and changes nothing.
\<close>

theorem get_logger_twice_one_file_sink:
  "(reg (logger_key name) = Some l0 \<and> handlers l0 \<noteq> [] \<longrightarrow>
      get_logger env name reg = (Inr l0, reg))
   \<and> ((reg (logger_key name) = None \<or> (\<exists>l. reg (logger_key name) = Some l \<and> handlers l = []))
       \<and> makedirs env (os_path_join (getcwd env) ''logs'') = None
       \<and> open_log_file env (log_file_of env) = None \<longrightarrow>
      (\<exists>l reg'. get_logger env name reg = (Inr l, reg')
         \<and> get_logger env' name reg' = (Inr l, reg')
         \<and> handlers l = [new_file_handler env (log_file_of env)]
         \<and> length (filter is_file_sink (handlers l)) = 1))"
proof (intro conjI impI)
  assume "reg (logger_key name) = Some l0 \<and> handlers l0 \<noteq> []"
  then show "get_logger env name reg = (Inr l0, reg)"
    by (simp add: get_logger_already_configured)
next
  assume pre: "(reg (logger_key name) = None \<or> (\<exists>l. reg (logger_key name) = Some l \<and> handlers l = []))
       \<and> makedirs env (os_path_join (getcwd env) ''logs'') = None
       \<and> open_log_file env (log_file_of env) = None"
  then obtain l reg' where first: "get_logger env name reg = (Inr l, reg')"
    and stored: "reg' (logger_key name) = Some l"
    and one: "handlers l = [new_file_handler env (log_file_of env)]"
    using get_logger_first_request [of reg name env] by blast
  have "get_logger env' name reg' = (Inr l, reg')"
    using stored one by (simp add: get_logger_already_configured)
  moreover have "length (filter is_file_sink (handlers l)) = 1"
    using one by (simp add: is_file_sink_def new_file_handler_def)
  ultimately show "\<exists>l reg'. get_logger env name reg = (Inr l, reg')
         \<and> get_logger env' name reg' = (Inr l, reg')
         \<and> handlers l = [new_file_handler env (log_file_of env)]
         \<and> length (filter is_file_sink (handlers l)) = 1"
    using first one by blast
qed

text \<open>Witness for C9: the logger \<open>app\<close>, requested twice, five seconds apart.\<close>

theorem get_logger_twice_one_file_sink_witness:
  "(Map.empty :: registry) (logger_key ''app'') = None
   \<and> makedirs env_ok (os_path_join (getcwd env_ok) ''logs'') = None
   \<and> open_log_file env_ok (log_file_of env_ok) = None
   \<and> get_logger env_ok ''app'' Map.empty = (Inr app_logger, [''app'' \<mapsto> app_logger])
   \<and> [''app'' \<mapsto> app_logger] (logger_key ''app'') = Some app_logger
   \<and> handlers app_logger \<noteq> []
   \<and> get_logger env_later ''app'' [''app'' \<mapsto> app_logger]
       = (Inr app_logger, [''app'' \<mapsto> app_logger])
   \<and> length (filter is_file_sink (handlers app_logger)) = 1"
  using get_logger_twice_one_file_sink [of "[''app'' \<mapsto> app_logger]" "''app''" app_logger env_later]
    get_logger_twice_one_file_sink [of Map.empty "''app''" app_logger env_ok env_later]
  by (simp add: app_logger_def env_ok_def env_later_def log_file_of_def os_path_join_def
      logger_key_def get_logger_def getLogger_def new_file_handler_def is_file_sink_def Let_def)

subsection \<open>C10: fallbacks of the run metadata\<close>

text \<open>
  Claim C10. With numpy importable (its import is not guarded, and the mapping has an
  entry for it), \<open>collect_run_metadata\<close> returns a mapping with exactly the seven keys for
  every seed and whatever becomes of the two guarded lookups: \<open>seed\<close> is the input seed;
  \<open>git_sha\<close> is \<open>unknown\<close> when the git call fails; \<open>tensorflow\<close> is \<open>not-imported\<close>
  when the import fails; host, python, numpy and started_at hold what the machine gives.
\<close>

theorem metadata_fallbacks:
  assumes "import_numpy env = Inr np_version"
  shows "\<exists>m. collect_run_metadata seed env = Inr m
     \<and> dom m = {''seed'', ''git_sha'', ''host'', ''python'', ''tensorflow'', ''numpy'',
                 ''started_at''}
     \<and> m ''seed'' = Some (IntValue seed)
     \<and> (isl (git_rev_parse env) \<longrightarrow> m ''git_sha'' = Some (StrValue ''unknown''))
     \<and> (isl (import_tensorflow env) \<longrightarrow> m ''tensorflow'' = Some (StrValue ''not-imported''))
     \<and> m ''host'' = Some (StrValue (gethostname env))
     \<and> m ''python'' = Some (StrValue (python_version env))
     \<and> m ''numpy'' = Some (StrValue np_version)
     \<and> m ''started_at'' = Some (StrValue (utc_now_isoformat env))"
  using assms
  by (auto simp: collect_run_metadata_def Let_def isl_def split: sum.splits)

text \<open>Witness for C10: seed 7 on a machine without git and without tensorflow.\<close>

theorem metadata_fallbacks_witness:
  "import_numpy env_bare = Inr ''2.1.0''
   \<and> isl (git_rev_parse env_bare)
   \<and> isl (import_tensorflow env_bare)
   \<and> (\<exists>m. collect_run_metadata 7 env_bare = Inr m
        \<and> m ''seed'' = Some (IntValue 7)
        \<and> m ''git_sha'' = Some (StrValue ''unknown'')
        \<and> m ''tensorflow'' = Some (StrValue ''not-imported'')
        \<and> m ''host'' = Some (StrValue ''trainer-01'')
        \<and> m ''python'' = Some (StrValue ''3.12.4'')
        \<and> m ''numpy'' = Some (StrValue ''2.1.0'')
        \<and> m ''started_at'' = Some (StrValue ''2026-01-01T12:00:00+00:00''))"
  using metadata_fallbacks [of env_bare "''2.1.0''" 7]
  by (auto simp: env_bare_def)

end
